theory Spec2Isabelle
  imports Complex_Main "HOL-Library.Sublist"
begin

section \<open>JavaScript values\<close>

text \<open>
  The client handles untyped JSON payloads (\<^verbatim>\<open>type Any = any\<close>), so payloads are modelled
  by a datatype of JavaScript values. A number is \<^verbatim>\<open>NaN\<close>, an infinity (with its sign:
  \<open>True\<close> for positive) or the real it denotes; \<^verbatim>\<open>+0\<close> and \<^verbatim>\<open>-0\<close> are both \<open>Num 0\<close>.
\<close>

datatype number = NaN | Infinity bool | Num real

text \<open>
  Template literals are kept symbolic: a text is the list of its literal chunks and of the
  values interpolated into it (\<^verbatim>\<open>${v}\<close> is \<open>Interp v\<close>, \<^verbatim>\<open>${JSON.stringify(v)}\<close> is
  \<open>Stringify v\<close>), so no string conversion of numbers or objects has to be chosen.
  A thrown \<^verbatim>\<open>new Error(text)\<close> is \<open>Error text\<close>. The other errors are the ones of the runtime:
  a rejected \<^verbatim>\<open>fetch\<close> (\<open>FetchFailed\<close>), a body that \<^verbatim>\<open>response.json()\<close> cannot parse
  (\<open>SyntaxError\<close>), a property read on \<^verbatim>\<open>undefined\<close> or \<^verbatim>\<open>null\<close> or a call of a non-function
  (\<open>TypeError\<close>), and \<^verbatim>\<open>toISOString\<close> of an invalid date (\<open>RangeError\<close>).
  A caught error is a value like any other (\<open>JError\<close>): \<^verbatim>\<open>.catch(handleError)\<close> passes it on.
\<close>

datatype jsval =
    JUndefined
  | JNull
  | JBool bool
  | JNum number
  | JStr string
  | JArr "jsval list"
  | JObj "(string \<times> jsval) list"
  | JError error
and error =
    Error "part list"
  | FetchFailed
  | SyntaxError
  | TypeError
  | RangeError
and part =
    Lit string
  | Interp jsval
  | Stringify jsval

type_synonym template = "part list"

fun truthy_num :: "number \<Rightarrow> bool" where
  "truthy_num NaN = False"
| "truthy_num (Infinity _) = True"
| "truthy_num (Num r) = (r \<noteq> 0)"

text \<open>JavaScript truthiness: what \<^verbatim>\<open>if (v)\<close>, \<^verbatim>\<open>!v\<close>, \<^verbatim>\<open>v || d\<close> and \<^verbatim>\<open>v && e\<close> test.\<close>

fun truthy :: "jsval \<Rightarrow> bool" where
  "truthy JUndefined = False"
| "truthy JNull = False"
| "truthy (JBool b) = b"
| "truthy (JNum n) = truthy_num n"
| "truthy (JStr s) = (s \<noteq> [])"
| "truthy (JArr _) = True"
| "truthy (JObj _) = True"
| "truthy (JError _) = True"

fun nullish :: "jsval \<Rightarrow> bool" where
  "nullish JUndefined = True"
| "nullish JNull = True"
| "nullish _ = False"

text \<open>
  \<open>field v k\<close> is \<^verbatim>\<open>v?.k\<close>: the value under key \<open>k\<close> of an object, \<^verbatim>\<open>undefined\<close> when the key
  is missing or \<open>v\<close> is not an object. The program reads provider field names only
  (\<^verbatim>\<open>ErrorCode\<close>, \<^verbatim>\<open>OrderId\<close>, \<^verbatim>\<open>Data\<close>, ...), none of which is a built-in property of a
  string, an array or an \<^verbatim>\<open>Error\<close>. \<open>member v k\<close> is the plain \<^verbatim>\<open>v.k\<close>, which throws on
  \<^verbatim>\<open>undefined\<close> and \<^verbatim>\<open>null\<close>.
\<close>

fun field :: "jsval \<Rightarrow> string \<Rightarrow> jsval" where
  "field (JObj kvs) k = (case map_of kvs k of Some v \<Rightarrow> v | None \<Rightarrow> JUndefined)"
| "field _ k = JUndefined"

definition member :: "jsval \<Rightarrow> string \<Rightarrow> error + jsval" where
  "member v k = (if nullish v then Inl TypeError else Inr (field v k))"

text \<open>\<^verbatim>\<open>a || b\<close> on values.\<close>

definition or_else :: "jsval \<Rightarrow> jsval \<Rightarrow> jsval" where
  "or_else a b = (if truthy a then a else b)"

text \<open>
  \<^verbatim>\<open>a === b\<close> for two values that come from different places (two parsed responses, or a
  response and an argument): primitives are compared by value, \<^verbatim>\<open>NaN\<close> differs from itself,
  and two objects or arrays are never the same reference.
\<close>

fun strict_eq :: "jsval \<Rightarrow> jsval \<Rightarrow> bool" where
  "strict_eq JUndefined JUndefined = True"
| "strict_eq JNull JNull = True"
| "strict_eq (JBool a) (JBool b) = (a = b)"
| "strict_eq (JNum a) (JNum b) = (a \<noteq> NaN \<and> a = b)"
| "strict_eq (JStr a) (JStr b) = (a = b)"
| "strict_eq _ _ = False"

section \<open>The provider and the requests made to it\<close>

text \<open>
  A request as handed to \<^verbatim>\<open>fetch\<close>: method, URL (a template literal), the query parameters
  appended to it, headers, body and redirect mode. A body is either the object given to
  \<^verbatim>\<open>JSON.stringify\<close> or the fields given to \<^verbatim>\<open>URLSearchParams\<close>.
\<close>

datatype req_body = NoBody | JsonBody jsval | FormBody "(string \<times> string) list"

record http_request =
  rq_method :: string
  rq_url :: template
  rq_query :: "(string \<times> template) list"
  rq_headers :: "(string \<times> template) list"
  rq_body :: req_body
  rq_redirect_manual :: bool

text \<open>
  A response: status, status text, headers (by lower-case name, \<open>None\<close> where
  \<^verbatim>\<open>headers.get\<close> gives \<^verbatim>\<open>null\<close>) and the body as \<^verbatim>\<open>response.json()\<close> parses it
  (\<open>None\<close> where it rejects).
\<close>

record http_response =
  rs_status :: nat
  rs_statusText :: string
  rs_headers :: "string \<Rightarrow> string option"
  rs_json :: "jsval option"

definition ok :: "http_response \<Rightarrow> bool" where
  "ok r = (200 \<le> rs_status r \<and> rs_status r \<le> 299)"

text \<open>
  The provider is the environment: it answers a request, knowing the requests made before,
  with a response or not at all (\<^verbatim>\<open>fetch\<close> rejects: no network, malformed URL).
\<close>

datatype outcome = Rejected | Resolved http_response

type_synonym provider = "http_request list \<Rightarrow> http_request \<Rightarrow> outcome"

text \<open>
  An asynchronous computation takes the log of the requests made so far and returns its
  result, a thrown error (\<open>Inl\<close>) or a value (\<open>Inr\<close>), with the extended log.
\<close>

type_synonym 'a io = "http_request list \<Rightarrow> (error + 'a) \<times> http_request list"

definition io_return :: "'a \<Rightarrow> 'a io" where
  "io_return x tr = (Inr x, tr)"

definition io_throw :: "error \<Rightarrow> 'a io" where
  "io_throw e tr = (Inl e, tr)"

definition io_lift :: "error + 'a \<Rightarrow> 'a io" where
  "io_lift r tr = (r, tr)"

text \<open>\<^verbatim>\<open>m.then(f)\<close>, or \<^verbatim>\<open>const x = await m; f(x)\<close>.\<close>

definition io_bind :: "'a io \<Rightarrow> ('a \<Rightarrow> 'b io) \<Rightarrow> 'b io" where
  "io_bind m f tr = (case m tr of (Inl e, tr') \<Rightarrow> (Inl e, tr') | (Inr x, tr') \<Rightarrow> f x tr')"

text \<open>\<^verbatim>\<open>try { m } catch (error) { h(error) }\<close>, or \<^verbatim>\<open>m.catch(h)\<close>.\<close>

definition io_catch :: "'a io \<Rightarrow> (error \<Rightarrow> 'a io) \<Rightarrow> 'a io" where
  "io_catch m h tr = (case m tr of (Inl e, tr') \<Rightarrow> h e tr' | (Inr x, tr') \<Rightarrow> (Inr x, tr'))"

definition fetch :: "provider \<Rightarrow> http_request \<Rightarrow> http_response io" where
  "fetch P rq tr =
     (case P tr rq of Rejected \<Rightarrow> (Inl FetchFailed, tr @ [rq]) | Resolved r \<Rightarrow> (Inr r, tr @ [rq]))"

text \<open>\<^verbatim>\<open>response.json()\<close>.\<close>

definition json :: "http_response \<Rightarrow> error + jsval" where
  "json r = (case rs_json r of None \<Rightarrow> Inl SyntaxError | Some v \<Rightarrow> Inr v)"

definition bearer :: "jsval \<Rightarrow> (string \<times> template) list" where
  "bearer token =
     [(''Authorization'', [Lit ''Bearer '', Interp token]),
      (''Content-Type'', [Lit ''application/json''])]"

text \<open>
  \<^verbatim>\<open>request(token, endpoint, apiEndpoint, queryParams = {}, method = "GET")\<close>: one fetch, an
  \<^verbatim>\<open>Error\<close> on a status outside 200..299, else the parsed body. The endpoints of the
  configuration are taken to be well-formed, so that \<^verbatim>\<open>new URL\<close> does not throw here.
\<close>

definition apiRequest ::
  "jsval \<Rightarrow> template \<Rightarrow> string \<Rightarrow> (string \<times> template) list \<Rightarrow> string \<Rightarrow> http_request"
where
  "apiRequest token endpoint apiEndpoint queryParams method =
     \<lparr>rq_method = method, rq_url = Lit apiEndpoint # endpoint, rq_query = queryParams,
      rq_headers = bearer token, rq_body = NoBody, rq_redirect_manual = False\<rparr>"

definition request ::
  "provider \<Rightarrow> jsval \<Rightarrow> template \<Rightarrow> string \<Rightarrow> (string \<times> template) list \<Rightarrow> string \<Rightarrow> jsval io"
where
  "request P token endpoint apiEndpoint queryParams method =
     io_bind (fetch P (apiRequest token endpoint apiEndpoint queryParams method))
       (\<lambda>response.
          if \<not> ok response
          then io_throw (Error [Lit ''API request failed: '', Lit (rs_statusText response)])
          else io_lift (json response))"

section \<open>Error classification\<close>

definition handleError :: "jsval \<Rightarrow> error + jsval" where
  "handleError response =
     (if truthy (field response ''ErrorCode'') then
        (let code = field response ''ErrorCode''; message = field response ''Message'' in
         Inl (Error [Lit ''API request failed with error '', Interp code, Lit '': '', Interp message,
                     Lit (CHR 0x0A # ''    ''), Stringify (field response ''ModelState''),
                     Lit [CHR 0x0A]]))
      else if truthy (field response ''ErrorInfo'') then
        (let code = field (field response ''ErrorInfo'') ''ErrorCode'';
             message = field (field response ''ErrorInfo'') ''Message'' in
         Inl (Error [Lit ''API request failed with error '', Interp code, Lit '': '', Interp message]))
      else Inr response)"

section \<open>The client and its read operations\<close>

text \<open>
  The configuration after the defaults of \<^verbatim>\<open>createClient\<close> are filled in
  (\<^verbatim>\<open>Required<AppConfig>\<close>), and what the closures of \<^verbatim>\<open>createClient\<close> capture: the access
  token and the \<^verbatim>\<open>ClientId\<close> and \<^verbatim>\<open>ClientKey\<close> read from \<^verbatim>\<open>/port/v1/clients/me\<close>.
\<close>

record AppConfig =
  appKey :: string
  appSecret :: string
  redirectUri :: string
  apiEndpoint :: string
  authEndpoint :: string

record client_env =
  access_token :: jsval
  client_id :: jsval
  client_key :: jsval
  clientConfig :: AppConfig

text \<open>
  The entities. Their fields hold whatever the provider sent. \<open>pos_internal\<close> and
  \<open>ord_internal\<close> are the hidden \<^verbatim>\<open>[INTERNAL]\<close> back-reference to the raw record, read by
  \<^verbatim>\<open>internal(obj)\<close>; a field an object does not have reads as \<^verbatim>\<open>undefined\<close>
  (\<open>pos_assetType\<close> is set for net positions only).
\<close>

record Position =
  pos_id :: jsval
  pos_uic :: jsval
  pos_client_id :: jsval
  pos_account_id :: jsval
  pos_order_id :: jsval
  pos_status :: jsval
  pos_quantity :: jsval
  pos_price :: jsval
  pos_value :: jsval
  pos_currency :: jsval
  pos_assetType :: jsval
  pos_internal :: jsval

text \<open>A \<^verbatim>\<open>Date\<close> made by the client: \<^verbatim>\<open>new Date()\<close> or \<^verbatim>\<open>new Date(v)\<close>.\<close>

datatype jsdate = DateNow | DateOf jsval

record Order =
  ord_id :: jsval
  ord_time :: jsdate
  ord_uic :: jsval
  ord_type :: jsval
  ord_order_type :: jsval
  ord_status :: jsval
  ord_price :: jsval
  ord_quantity :: jsval
  ord_client_id :: jsval
  ord_account_id :: jsval
  ord_exchange_id :: jsval
  ord_assetType :: jsval
  ord_externalReference :: jsval
  ord_internal :: jsval

record Balance =
  cashBalance :: jsval
  cashAvailable :: jsval
  totalValue :: jsval
  marginUsed :: jsval
  marginAvailable :: jsval
  unrealizedPnL :: jsval
  currency :: jsval
  bal_internal :: jsval

text \<open>\<^verbatim>\<open>xs.map(f)\<close> where \<open>f\<close> may throw: the first throw ends the map.\<close>

fun mapE :: "('a \<Rightarrow> error + 'b) \<Rightarrow> 'a list \<Rightarrow> error + 'b list" where
  "mapE f [] = Inr []"
| "mapE f (x # xs) =
     (case f x of
        Inl e \<Rightarrow> Inl e
      | Inr y \<Rightarrow> (case mapE f xs of Inl e \<Rightarrow> Inl e | Inr ys \<Rightarrow> Inr (y # ys)))"

text \<open>
  \<^verbatim>\<open>result?.Data?.map(f) || []\<close>: the empty list when \<^verbatim>\<open>Data\<close> is missing or \<^verbatim>\<open>null\<close>, the
  mapped array when it is an array, and a \<^verbatim>\<open>TypeError\<close> when it is anything else (it has no
  \<^verbatim>\<open>map\<close> to call).
\<close>

definition mapData :: "(jsval \<Rightarrow> error + 'b) \<Rightarrow> jsval \<Rightarrow> error + 'b list" where
  "mapData f result =
     (case field result ''Data'' of
        JUndefined \<Rightarrow> Inr []
      | JNull \<Rightarrow> Inr []
      | JArr xs \<Rightarrow> mapE f xs
      | _ \<Rightarrow> Inl TypeError)"

text \<open>The truthiness of an optional string argument (\<^verbatim>\<open>account_key ? ... : ...\<close>).\<close>

fun truthy_str :: "string option \<Rightarrow> bool" where
  "truthy_str None = False"
| "truthy_str (Some s) = (s \<noteq> [])"

text \<open>
  The endpoint of a read: \<^verbatim>\<open>/port/v1/<what>?ClientKey=${client_key}&AccountKey=${account_key}\<close>
  for an account, \<^verbatim>\<open>/port/v1/<what>/me\<close> without one.
\<close>

fun portEndpoint :: "string \<Rightarrow> jsval \<Rightarrow> string option \<Rightarrow> template" where
  "portEndpoint what ck None = [Lit (''/port/v1/'' @ what @ ''/me'')]"
| "portEndpoint what ck (Some account_key) =
     (if account_key \<noteq> []
      then [Lit (''/port/v1/'' @ what @ ''?ClientKey=''), Interp ck, Lit ''&AccountKey='',
            Lit account_key]
      else [Lit (''/port/v1/'' @ what @ ''/me'')])"

text \<open>\<^verbatim>\<open>request(token.access_token, endpoint, clientConfig.apiEndpoint).then(handleError)\<close>\<close>

definition requestChecked :: "provider \<Rightarrow> client_env \<Rightarrow> template \<Rightarrow> jsval io" where
  "requestChecked P env endpoint =
     io_bind (request P (access_token env) endpoint (apiEndpoint (clientConfig env)) [] ''GET'')
       (\<lambda>response. io_lift (handleError response))"

definition toPosition :: "jsval \<Rightarrow> jsval \<Rightarrow> error + Position" where
  "toPosition cid el =
     (if nullish el then Inl TypeError
      else
        let PositionId = field el ''PositionId'';
            PositionBase = field el ''PositionBase'';
            PositionView = field el ''PositionView''
        in if nullish PositionBase \<or> nullish PositionView then Inl TypeError
           else Inr \<lparr>pos_id = PositionId,
                     pos_uic = field PositionBase ''Uic'',
                     pos_client_id = cid,
                     pos_account_id = field PositionBase ''AccountId'',
                     pos_order_id = field PositionBase ''SourceOrderId'',
                     pos_status = field PositionBase ''Status'',
                     pos_quantity = field PositionBase ''Amount'',
                     pos_price = field PositionBase ''OpenPrice'',
                     pos_value = field PositionView ''CurrentPrice'',
                     pos_currency = field PositionView ''ExposureCurrency'',
                     pos_assetType = JUndefined,
                     pos_internal = JObj [(''PositionId'', PositionId),
                                          (''PositionBase'', PositionBase),
                                          (''PositionView'', PositionView)]\<rparr>)"

definition getPositions :: "provider \<Rightarrow> client_env \<Rightarrow> string option \<Rightarrow> Position list io" where
  "getPositions P env account_key =
     io_catch
       (io_bind (requestChecked P env (portEndpoint ''positions'' (client_key env) account_key))
          (\<lambda>result. io_lift (mapData (toPosition (client_id env)) result)))
       (\<lambda>error. io_return [])"

text \<open>
  \<^verbatim>\<open>s.toLowerCase()\<close>. A character of the model stands for the code unit of the same value,
  so the strings of the model are those whose code units are below 256. There the cased
  letters are A to Z (65..90) and the accented capitals 192..214 and 216..222, and each is
  lower-cased by adding 32; every other code unit is left as it is.
\<close>

definition toLowerCase :: "string \<Rightarrow> string" where
  "toLowerCase s =
     map (\<lambda>c. if (65 \<le> (of_char c :: nat) \<and> (of_char c :: nat) \<le> 90)
                  \<or> (192 \<le> (of_char c :: nat) \<and> (of_char c :: nat) \<le> 214)
                  \<or> (216 \<le> (of_char c :: nat) \<and> (of_char c :: nat) \<le> 222)
               then char_of ((of_char c :: nat) + 32) else c) s"

definition toOrder :: "jsval \<Rightarrow> error + Order" where
  "toOrder order =
     (if nullish order then Inl TypeError
      else case field order ''BuySell'' of
        JStr buySell \<Rightarrow>
          Inr \<lparr>ord_id = field order ''OrderId'',
                ord_time = DateOf (field order ''OrderTime''),
                ord_uic = field order ''Uic'',
                ord_type = JStr (toLowerCase buySell),
                ord_order_type =
                  (if field order ''OpenOrderType'' = JStr ''Market'' then JStr ''market''
                   else if field order ''OpenOrderType'' = JStr ''Limit'' then JStr ''limit''
                   else if field order ''OpenOrderType'' = JStr ''Stop'' then JStr ''stop''
                   else if field order ''OpenOrderType'' = JStr ''StopLimit'' then JStr ''stop_limit''
                   else field order ''OpenOrderType''),
                ord_status =
                  (if field order ''Status'' = JStr ''Filled'' then JStr ''filled''
                   else if field order ''Status'' = JStr ''Working'' then JStr ''working''
                   else if field order ''Status'' = JStr ''Parked'' then JStr ''parked''
                   else field order ''Status''),
                ord_price = field order ''Price'',
                ord_quantity = field order ''Amount'',
                ord_client_id = field order ''ClientId'',
                ord_account_id = field order ''AccountId'',
                ord_exchange_id = field (field order ''Exchange'') ''ExchangeId'',
                ord_assetType = field order ''AssetType'',
                ord_externalReference = JUndefined,
                ord_internal = order\<rparr>
      | _ \<Rightarrow> Inl TypeError)"

definition getOrders :: "provider \<Rightarrow> client_env \<Rightarrow> string option \<Rightarrow> Order list io" where
  "getOrders P env account_key =
     io_catch
       (io_bind (requestChecked P env (portEndpoint ''orders'' (client_key env) account_key))
          (\<lambda>result. io_lift (mapData toOrder result)))
       (\<lambda>error. io_return [])"

definition toNetPosition :: "jsval \<Rightarrow> jsval \<Rightarrow> error + Position" where
  "toNetPosition cid netPos =
     (if nullish netPos \<or> nullish (field netPos ''NetPositionBase'')
         \<or> nullish (field netPos ''NetPositionView'')
      then Inl TypeError
      else Inr \<lparr>pos_id = field netPos ''NetPositionId'',
                pos_uic = field (field netPos ''NetPositionBase'') ''Uic'',
                pos_client_id = cid,
                pos_account_id = field (field netPos ''NetPositionBase'') ''AccountId'',
                pos_order_id = JStr '''',
                pos_status = field (field netPos ''NetPositionBase'') ''Status'',
                pos_quantity = field (field netPos ''NetPositionBase'') ''Amount'',
                pos_price = field (field netPos ''NetPositionBase'') ''AverageOpenPrice'',
                pos_value = field (field netPos ''NetPositionView'') ''MarketValue'',
                pos_currency = field (field netPos ''NetPositionView'') ''ExposureCurrency'',
                pos_assetType = field (field netPos ''NetPositionBase'') ''AssetType'',
                pos_internal = netPos\<rparr>)"

definition getNetPositions :: "provider \<Rightarrow> client_env \<Rightarrow> string option \<Rightarrow> Position list io" where
  "getNetPositions P env account_key =
     io_catch
       (io_bind (requestChecked P env (portEndpoint ''netpositions'' (client_key env) account_key))
          (\<lambda>result. io_lift (mapData (toNetPosition (client_id env)) result)))
       (\<lambda>error. io_return [])"

text \<open>
  A \<^verbatim>\<open>Date\<close> argument is known by what \<^verbatim>\<open>toISOString()\<close> gives: a string, or a
  \<^verbatim>\<open>RangeError\<close> for an invalid date. The dates are appended to the endpoint before the
  \<^verbatim>\<open>try\<close> block is entered.
\<close>

datatype date_arg = IsoDate string | InvalidDate

fun dateParam :: "string \<Rightarrow> date_arg option \<Rightarrow> error + template" where
  "dateParam name None = Inr []"
| "dateParam name (Some (IsoDate s)) = Inr [Lit name, Lit s]"
| "dateParam name (Some InvalidDate) = Inl RangeError"

definition closedPositionsEndpoint ::
  "jsval \<Rightarrow> string option \<Rightarrow> date_arg option \<Rightarrow> date_arg option \<Rightarrow> error + template" where
  "closedPositionsEndpoint ck account_key fromDate toDate =
     (case dateParam ''&FromDateTime='' fromDate of
        Inl e \<Rightarrow> Inl e
      | Inr f \<Rightarrow>
          (case dateParam ''&ToDateTime='' toDate of
             Inl e \<Rightarrow> Inl e
           | Inr t \<Rightarrow> Inr (portEndpoint ''closedpositions'' ck account_key @ f @ t)))"

definition toClosedPosition :: "jsval \<Rightarrow> jsval \<Rightarrow> error + Position" where
  "toClosedPosition cid closedPos =
     (if nullish closedPos \<or> nullish (field closedPos ''PositionBase'')
         \<or> nullish (field closedPos ''PositionView'')
      then Inl TypeError
      else Inr \<lparr>pos_id = field closedPos ''ClosedPositionId'',
                pos_uic = field (field closedPos ''PositionBase'') ''Uic'',
                pos_client_id = cid,
                pos_account_id = field (field closedPos ''PositionBase'') ''AccountId'',
                pos_order_id = field (field closedPos ''PositionBase'') ''SourceOrderId'',
                pos_status = JStr ''closed'',
                pos_quantity = field (field closedPos ''PositionBase'') ''Amount'',
                pos_price = field (field closedPos ''PositionBase'') ''OpenPrice'',
                pos_value = field (field closedPos ''PositionView'') ''ProfitLoss'',
                pos_currency = field (field closedPos ''PositionView'') ''ExposureCurrency'',
                pos_assetType = JUndefined,
                pos_internal = closedPos\<rparr>)"

definition getClosedPositions ::
  "provider \<Rightarrow> client_env \<Rightarrow> string option \<Rightarrow> date_arg option \<Rightarrow> date_arg option \<Rightarrow> Position list io"
where
  "getClosedPositions P env account_key fromDate toDate =
     (case closedPositionsEndpoint (client_key env) account_key fromDate toDate of
        Inl e \<Rightarrow> io_throw e
      | Inr endpoint \<Rightarrow>
          io_catch
            (io_bind (requestChecked P env endpoint)
               (\<lambda>result. io_lift (mapData (toClosedPosition (client_id env)) result)))
            (\<lambda>error. io_return []))"

definition getExposure :: "provider \<Rightarrow> client_env \<Rightarrow> string option \<Rightarrow> jsval io" where
  "getExposure P env account_key =
     io_catch (requestChecked P env (portEndpoint ''exposure'' (client_key env) account_key))
       (\<lambda>error. io_return (JObj []))"

text \<open>
  \<^verbatim>\<open>getBalance\<close> is the chain
  \<^verbatim>\<open>request(...).catch(handleError).then(handleError).then(response => lock({...}))\<close>.
  The rejection handler is the classifier itself, applied to the caught error.
\<close>

definition toBalance :: "jsval \<Rightarrow> error + Balance" where
  "toBalance response =
     (if nullish response then Inl TypeError
      else Inr \<lparr>cashBalance = or_else (field response ''CashBalance'') (JNum (Num 0)),
                cashAvailable = or_else (field response ''CashAvailableForTrading'') (JNum (Num 0)),
                totalValue = or_else (field response ''TotalValue'') (JNum (Num 0)),
                marginUsed = or_else (field response ''MarginUsedByCurrentPositions'') (JNum (Num 0)),
                marginAvailable = or_else (field response ''MarginAvailableForTrading'') (JNum (Num 0)),
                unrealizedPnL = or_else (field response ''UnrealizedPositionsValue'') (JNum (Num 0)),
                currency = field response ''Currency'',
                bal_internal = response\<rparr>)"

definition getBalance :: "provider \<Rightarrow> client_env \<Rightarrow> string \<Rightarrow> Balance io" where
  "getBalance P env account_key =
     io_bind
       (io_bind
          (io_catch
             (request P (access_token env)
                [Lit ''/port/v1/balances?ClientKey='', Interp (client_key env), Lit ''&AccountKey='',
                 Lit account_key]
                (apiEndpoint (clientConfig env)) [] ''GET'')
             (\<lambda>error. io_lift (handleError (JError error))))
          (\<lambda>response. io_lift (handleError response)))
       (\<lambda>response. io_lift (toBalance response))"

section \<open>Placing an order\<close>

record OrderDuration =
  durationType :: string
  expirationDateTime :: "string option"

record OrderOptions =
  opt_assetType :: "string option"
  opt_duration :: "OrderDuration option"
  opt_externalReference :: "string option"
  opt_manualOrder :: "bool option"
  opt_isForceOpen :: "bool option"
  opt_trailingStopDistanceToMarket :: "number option"
  opt_trailingStopStep :: "number option"

text \<open>The truthiness of an optional number argument: \<^verbatim>\<open>undefined\<close>, 0 and \<^verbatim>\<open>NaN\<close> are falsy.\<close>

fun truthy_arg :: "number option \<Rightarrow> bool" where
  "truthy_arg None = False"
| "truthy_arg (Some n) = truthy_num n"

text \<open>The four checks that open \<^verbatim>\<open>createOrder\<close>, in their order; \<open>None\<close> when none throws.\<close>

definition validate :: "string \<Rightarrow> number option \<Rightarrow> number option \<Rightarrow> error option" where
  "validate order_type price stop_limit =
     (if order_type = ''stop'' \<and> \<not> truthy_arg stop_limit
      then Some (Error [Lit ''Stop orders require a stop limit price''])
      else if order_type = ''market'' \<and> (truthy_arg price \<or> truthy_arg stop_limit)
      then Some (Error [Lit ''Market orders cannot have a price or stop limit''])
      else if order_type \<in> set [''limit'', ''stop_limit''] \<and> \<not> truthy_arg price
      then Some (Error [Lit ''Limit orders require a price''])
      else if (order_type \<in> set [''market'', ''stop'', ''limit'', ''stop_limit'']) = False
      then Some (Error [Lit ''Invalid order type''])
      else None)"

text \<open>\<^verbatim>\<open>...v && { key: v }\<close> for an optional number, string and boolean.\<close>

fun spread_num :: "string \<Rightarrow> number option \<Rightarrow> (string \<times> jsval) list" where
  "spread_num k None = []"
| "spread_num k (Some n) = (if truthy_num n then [(k, JNum n)] else [])"

fun spread_str :: "string \<Rightarrow> string option \<Rightarrow> (string \<times> jsval) list" where
  "spread_str k None = []"
| "spread_str k (Some s) = (if s \<noteq> [] then [(k, JStr s)] else [])"

fun spread_bool :: "string \<Rightarrow> bool option \<Rightarrow> (string \<times> jsval) list" where
  "spread_bool k None = []"
| "spread_bool k (Some b) = (if b then [(k, JBool b)] else [])"

text \<open>\<^verbatim>\<open>options.assetType || "FxSpot"\<close>\<close>

fun assetTypeOrDefault :: "string option \<Rightarrow> string" where
  "assetTypeOrDefault None = ''FxSpot''"
| "assetTypeOrDefault (Some s) = (if s \<noteq> [] then s else ''FxSpot'')"

text \<open>\<^verbatim>\<open>options.duration || { DurationType: "GoodTillCancel" }\<close>, as it is serialised.\<close>

fun durationOrDefault :: "OrderDuration option \<Rightarrow> jsval" where
  "durationOrDefault None = JObj [(''DurationType'', JStr ''GoodTillCancel'')]"
| "durationOrDefault (Some d) =
     JObj ((''durationType'', JStr (durationType d)) #
           (case expirationDateTime d of None \<Rightarrow> [] | Some e \<Rightarrow> [(''expirationDateTime'', JStr e)]))"

definition providerOrderType :: "string \<Rightarrow> string" where
  "providerOrderType order_type =
     (if order_type = ''market'' then ''Market''
      else if order_type = ''limit'' then ''Limit''
      else if order_type = ''stop'' then ''Stop''
      else if order_type = ''stop_limit'' then ''StopLimit''
      else order_type)"

text \<open>The object literal \<^verbatim>\<open>orderRequest\<close>, key by key.\<close>

definition orderRequest ::
  "string \<Rightarrow> string \<Rightarrow> number \<Rightarrow> number \<Rightarrow> string \<Rightarrow> number option \<Rightarrow> number option \<Rightarrow>
   OrderOptions \<Rightarrow> jsval"
where
  "orderRequest account_key type uic quantity order_type price stop_limit options =
     JObj ([(''AccountKey'', JStr account_key),
            (''Uic'', JNum uic),
            (''AssetType'', JStr (assetTypeOrDefault (opt_assetType options))),
            (''BuySell'', JStr (if type = ''buy'' then ''Buy'' else ''Sell'')),
            (''OrderType'', JStr (providerOrderType order_type)),
            (''Amount'', JNum quantity)]
           @ spread_num ''OrderPrice'' price
           @ spread_num ''StopLimitPrice'' stop_limit
           @ [(''OrderRelation'', JStr ''StandAlone''),
              (''ManualOrder'',
                 JBool (case opt_manualOrder options of None \<Rightarrow> True | Some b \<Rightarrow> b))]
           @ spread_str ''ExternalReference'' (opt_externalReference options)
           @ spread_bool ''IsForceOpen'' (opt_isForceOpen options)
           @ spread_num ''TrailingStopDistanceToMarket'' (opt_trailingStopDistanceToMarket options)
           @ spread_num ''TrailingStopStep'' (opt_trailingStopStep options)
           @ (if order_type \<noteq> ''market''
              then [(''OrderDuration'', durationOrDefault (opt_duration options))] else []))"

text \<open>
  A request with a JSON body to \<^verbatim>\<open>${clientConfig.apiEndpoint}<path>\<close>, as \<^verbatim>\<open>createOrder\<close>,
  \<^verbatim>\<open>modifyOrder\<close> and \<^verbatim>\<open>preCheckOrder\<close> build it.
\<close>

definition jsonRequest :: "client_env \<Rightarrow> string \<Rightarrow> string \<Rightarrow> jsval \<Rightarrow> http_request" where
  "jsonRequest env method path payload =
     \<lparr>rq_method = method,
      rq_url = [Lit (apiEndpoint (clientConfig env)), Lit path],
      rq_query = [],
      rq_headers = bearer (access_token env),
      rq_body = JsonBody payload,
      rq_redirect_manual = False\<rparr>"

text \<open>
  \<^verbatim>\<open>fetch(...).then((response) => response.json()).then(handleError)\<close>: the status of the
  response is not looked at.
\<close>

definition fetchJson :: "provider \<Rightarrow> http_request \<Rightarrow> jsval io" where
  "fetchJson P rq =
     io_bind (io_bind (fetch P rq) (\<lambda>response. io_lift (json response)))
       (\<lambda>response. io_lift (handleError response))"

definition submitOrder :: "provider \<Rightarrow> client_env \<Rightarrow> jsval \<Rightarrow> jsval io" where
  "submitOrder P env payload = fetchJson P (jsonRequest env ''POST'' ''/trade/v2/orders'' payload)"

text \<open>What \<^verbatim>\<open>createOrder\<close> resolves to: one of its three \<^verbatim>\<open>return\<close> statements.\<close>

datatype order_result =
    OrderDetails jsval
  | ResultPosition Position
  | ResultOrder Order

text \<open>The fallback object at the end of \<^verbatim>\<open>createOrder\<close>.\<close>

definition fallbackOrder ::
  "client_env \<Rightarrow> string \<Rightarrow> string \<Rightarrow> number \<Rightarrow> number \<Rightarrow> string \<Rightarrow> number option \<Rightarrow>
   OrderOptions \<Rightarrow> jsval \<Rightarrow> Order"
where
  "fallbackOrder env account_key type uic quantity order_type price options response =
     \<lparr>ord_id = field response ''OrderId'',
      ord_time = DateNow,
      ord_uic = JNum uic,
      ord_type = JStr type,
      ord_order_type = JStr order_type,
      ord_status = JStr ''working'',
      ord_price = (if truthy_arg price then (case price of Some p \<Rightarrow> JNum p | None \<Rightarrow> JUndefined)
                   else JNum (Num 0)),
      ord_quantity = JNum quantity,
      ord_client_id = client_id env,
      ord_account_id = JStr account_key,
      ord_exchange_id = JStr '''',
      ord_assetType = JStr (assetTypeOrDefault (opt_assetType options)),
      ord_externalReference =
        (case opt_externalReference options of None \<Rightarrow> JUndefined | Some s \<Rightarrow> JStr s),
      ord_internal = JUndefined\<rparr>"

text \<open>
  The test of the position scan:
  \<^verbatim>\<open>internal(pos).PositionBase?.SourceOrderId === response.OrderId\<close>.
\<close>

definition sourceOrderIs :: "jsval \<Rightarrow> Position \<Rightarrow> bool" where
  "sourceOrderIs orderId pos =
     strict_eq (field (field (pos_internal pos) ''PositionBase'') ''SourceOrderId'') orderId"

definition orderDetailsEndpoint :: "client_env \<Rightarrow> jsval \<Rightarrow> template" where
  "orderDetailsEndpoint env response =
     [Lit ''/trade/v2/orders/'', Interp (client_key env), Lit ''/'',
      Interp (field response ''OrderId'')]"

text \<open>
  The \<^verbatim>\<open>try\<close>/\<^verbatim>\<open>catch\<close> of \<^verbatim>\<open>createOrder\<close>: \<open>Some\<close> of what it returns, \<open>None\<close> when control
  runs past it to the fallback.
\<close>

definition lookupOrder ::
  "provider \<Rightarrow> client_env \<Rightarrow> string \<Rightarrow> jsval \<Rightarrow> order_result option io" where
  "lookupOrder P env account_key response =
     io_catch
       (io_bind
          (request P (access_token env) (orderDetailsEndpoint env response)
             (apiEndpoint (clientConfig env)) [] ''GET'')
          (\<lambda>orderDetails.
             io_return (if truthy orderDetails then Some (OrderDetails orderDetails) else None)))
       (\<lambda>error.
          io_bind (getPositions P env (Some account_key))
            (\<lambda>positions.
               io_return
                 (case find (sourceOrderIs (field response ''OrderId'')) positions of
                    Some position \<Rightarrow> Some (ResultPosition position)
                  | None \<Rightarrow> None)))"

text \<open>
  \<^verbatim>\<open>createOrder\<close>. \<open>order_type_arg\<close> is \<open>None\<close> when the caller leaves the order type out,
  which the default parameter turns into \<^verbatim>\<open>"market"\<close>.
\<close>

fun orderTypeOrDefault :: "string option \<Rightarrow> string" where
  "orderTypeOrDefault None = ''market''"
| "orderTypeOrDefault (Some t) = t"

definition createOrder ::
  "provider \<Rightarrow> client_env \<Rightarrow> string \<Rightarrow> string \<Rightarrow> number \<Rightarrow> number \<Rightarrow> string option \<Rightarrow>
   number option \<Rightarrow> number option \<Rightarrow> OrderOptions \<Rightarrow> order_result io"
where
  "createOrder P env account_key type uic quantity order_type_arg price stop_limit options =
     (let order_type = orderTypeOrDefault order_type_arg in
      case validate order_type price stop_limit of
        Some e \<Rightarrow> io_throw e
      | None \<Rightarrow>
          io_bind
            (submitOrder P env
               (orderRequest account_key type uic quantity order_type price stop_limit options))
            (\<lambda>response.
               if \<not> truthy response \<or> \<not> truthy (field response ''OrderId'')
               then io_throw (Error [Lit ''Failed to place order: No OrderId returned''])
               else
                 io_bind (lookupOrder P env account_key response)
                   (\<lambda>found.
                      io_return
                        (case found of
                           Some r \<Rightarrow> r
                         | None \<Rightarrow>
                             ResultOrder
                               (fallbackOrder env account_key type uic quantity order_type price
                                  options response)))))"

section \<open>Modifying, cancelling and pre-checking orders\<close>





text \<open>
  \<^verbatim>\<open>cancelOrder\<close> and \<^verbatim>\<open>cancelAllOrders\<close>: a \<^verbatim>\<open>DELETE\<close> that throws on a status outside
  200..299, gives \<^verbatim>\<open>{}\<close> on 204 and the classified body otherwise.
\<close>

definition deleteRequest :: "client_env \<Rightarrow> template \<Rightarrow> http_request" where
  "deleteRequest env path =
     \<lparr>rq_method = ''DELETE'',
      rq_url = Lit (apiEndpoint (clientConfig env)) # path,
      rq_query = [],
      rq_headers = bearer (access_token env),
      rq_body = NoBody,
      rq_redirect_manual = False\<rparr>"

definition cancelWith :: "provider \<Rightarrow> http_request \<Rightarrow> string \<Rightarrow> jsval io" where
  "cancelWith P rq failure =
     io_bind
       (io_bind (fetch P rq)
          (\<lambda>response.
             if \<not> ok response then io_throw (Error [Lit failure, Lit (rs_statusText response)])
             else if rs_status response = 204 then io_return (JObj [])
             else io_lift (json response)))
       (\<lambda>response. io_lift (handleError response))"

definition cancelOrder :: "provider \<Rightarrow> client_env \<Rightarrow> string \<Rightarrow> string \<Rightarrow> jsval io" where
  "cancelOrder P env account_key orderId =
     cancelWith P
       (deleteRequest env [Lit ''/trade/v2/orders/'', Lit orderId, Lit ''?AccountKey='', Lit account_key])
       ''Failed to cancel order: ''"

definition cancelAllOrders ::
  "provider \<Rightarrow> client_env \<Rightarrow> string \<Rightarrow> number \<Rightarrow> string option \<Rightarrow> jsval io" where
  "cancelAllOrders P env account_key uic assetType =
     cancelWith P
       (deleteRequest env
          [Lit ''/trade/v2/orders?AccountKey='', Lit account_key, Lit ''&AssetType='',
           Lit (case assetType of None \<Rightarrow> ''FxSpot'' | Some a \<Rightarrow> a), Lit ''&Uic='',
           Interp (JNum uic)])
       ''Failed to cancel orders: ''"

text \<open>
  The result of \<^verbatim>\<open>preCheckOrder\<close>; each part is set only when the response has it.
\<close>

record EstimatedCosts =
  commission :: jsval
  financing :: jsval
  total :: jsval

record MarginImpact =
  initialMargin :: jsval
  maintenanceMargin :: jsval
  mi_currency :: jsval

record ErrorInfo =
  errorCode :: jsval
  message :: jsval

record PreCheckResult =
  estimatedCosts :: "EstimatedCosts option"
  marginImpact :: "MarginImpact option"
  errorInfo :: "ErrorInfo option"
  preCheckResult :: "jsval option"

definition toPreCheckResult :: "jsval \<Rightarrow> error + PreCheckResult" where
  "toPreCheckResult response =
     (if nullish response then Inl TypeError
      else Inr
        \<lparr>estimatedCosts =
           (if truthy (field response ''EstimatedCosts'') \<or> truthy (field response ''Costs'')
            then (let costs = or_else (field response ''EstimatedCosts'') (field response ''Costs'')
                  in Some \<lparr>commission = field costs ''Commission'',
                            financing = field costs ''Financing'',
                            total = or_else (field costs ''Total'') (field costs ''TotalCosts'')\<rparr>)
            else None),
         marginImpact =
           (if truthy (field response ''MarginImpact'')
            then Some \<lparr>initialMargin = field (field response ''MarginImpact'') ''InitialMargin'',
                       maintenanceMargin = field (field response ''MarginImpact'') ''MaintenanceMargin'',
                       mi_currency = field (field response ''MarginImpact'') ''Currency''\<rparr>
            else None),
         errorInfo =
           (if truthy (field response ''ErrorInfo'')
            then Some \<lparr>errorCode = field (field response ''ErrorInfo'') ''ErrorCode'',
                       message = field (field response ''ErrorInfo'') ''Message''\<rparr>
            else None),
         preCheckResult =
           (if truthy (field response ''PreCheckResult'')
            then Some (field response ''PreCheckResult'') else None)\<rparr>)"

text \<open>The order request of \<^verbatim>\<open>preCheckOrder\<close> is only serialised, so it is taken as a value.\<close>

definition preCheckOrder :: "provider \<Rightarrow> client_env \<Rightarrow> jsval \<Rightarrow> PreCheckResult io" where
  "preCheckOrder P env orderRequest_arg =
     io_bind (fetchJson P (jsonRequest env ''POST'' ''/trade/v2/orders/precheck'' orderRequest_arg))
       (\<lambda>response. io_lift (toPreCheckResult response))"

section \<open>Authentication and client construction\<close>

text \<open>
  What the login flow takes from the JavaScript runtime: the random \<^verbatim>\<open>STATE\<close> string, the
  clock reading sent as \<^verbatim>\<open>LoginSubmitTime\<close>, the \<^verbatim>\<open>code\<close> query parameter of a URL
  (\<^verbatim>\<open>new URL(s).searchParams.get("code")\<close>: \<open>None\<close> when the constructor throws, \<open>Some None\<close>
  when the URL has no such parameter) and the base64 encoding.
\<close>

record runtime =
  rt_state :: string
  rt_submitTime :: string
  rt_searchCode :: "string \<Rightarrow> string option option"
  rt_encodeBase64 :: "string \<Rightarrow> string"

text \<open>\<^verbatim>\<open>s.includes(sub)\<close>\<close>

fun str_includes :: "string \<Rightarrow> string \<Rightarrow> bool" where
  "str_includes [] sub = (sub = [])"
| "str_includes (c # cs) sub = (prefix sub (c # cs) \<or> str_includes cs sub)"

definition authorizeRequest :: "runtime \<Rightarrow> AppConfig \<Rightarrow> http_request" where
  "authorizeRequest rt config =
     \<lparr>rq_method = ''GET'',
      rq_url = [Lit (authEndpoint config), Lit ''/authorize?''],
      rq_query = [(''response_type'', [Lit ''code'']),
                  (''client_id'', [Lit (appKey config)]),
                  (''state'', [Lit (rt_state rt)]),
                  (''redirect_uri'', [Lit (redirectUri config)])],
      rq_headers = [],
      rq_body = NoBody,
      rq_redirect_manual = True\<rparr>"

definition loginRequest :: "runtime \<Rightarrow> string \<Rightarrow> string \<Rightarrow> string \<Rightarrow> http_request" where
  "loginRequest rt loginUrl username password =
     \<lparr>rq_method = ''POST'',
      rq_url = [Lit loginUrl],
      rq_query = [],
      rq_headers =
        [(''Accept'', [Lit ''text/html,application/xhtml+xml,application/xml;q=0.9,*/*;q=0.8'']),
         (''Content-Type'', [Lit ''application/x-www-form-urlencoded''])],
      rq_body = FormBody [(''PageLoadInfo'', ''0|0''),
                          (''LoginSubmitTime'', rt_submitTime rt),
                          (''field_userid'', username),
                          (''field_password'', password),
                          (''Platform'', ''MacIntel''),
                          (''IsMobile'', ''0''),
                          (''Locality'', ''en-GB''),
                          (''field_isSrp'', ''false'')],
      rq_redirect_manual = True\<rparr>"

text \<open>\<^verbatim>\<open>h || ""\<close> for a header value.\<close>

fun headerOrEmpty :: "string option \<Rightarrow> string" where
  "headerOrEmpty None = []"
| "headerOrEmpty (Some s) = s"

definition postLoginRequest :: "string \<Rightarrow> http_response \<Rightarrow> http_request" where
  "postLoginRequest postLoginUrl loginResponse =
     \<lparr>rq_method = ''GET'',
      rq_url = [Lit postLoginUrl],
      rq_query = [],
      rq_headers = [(''Cookie'', [Lit (headerOrEmpty (rs_headers loginResponse ''set-cookie''))])],
      rq_body = NoBody,
      rq_redirect_manual = True\<rparr>"

definition tokenRequest :: "runtime \<Rightarrow> AppConfig \<Rightarrow> string \<Rightarrow> http_request" where
  "tokenRequest rt config authCode =
     \<lparr>rq_method = ''POST'',
      rq_url = [Lit (authEndpoint config), Lit ''/token''],
      rq_query = [],
      rq_headers =
        [(''Authorization'',
            [Lit ''Basic '', Lit (rt_encodeBase64 rt (appKey config @ '':'' @ appSecret config))]),
         (''Content-Type'', [Lit ''application/x-www-form-urlencoded''])],
      rq_body = FormBody [(''grant_type'', ''authorization_code''),
                          (''code'', authCode),
                          (''redirect_uri'', redirectUri config)],
      rq_redirect_manual = False\<rparr>"

text \<open>
  \<^verbatim>\<open>authenticate\<close>: four requests, each built from the response to the one before, and an
  \<^verbatim>\<open>Error\<close> at the first irregular step. The result is the parsed token response. The
  function is given step by step, from its last step (the source's "Step 4") to its first.
\<close>

text \<open>Step 4: exchange the authorization code for an access token.\<close>

definition exchangeCode :: "provider \<Rightarrow> runtime \<Rightarrow> AppConfig \<Rightarrow> string \<Rightarrow> jsval io" where
  "exchangeCode P rt config authCode =
     io_bind (fetch P (tokenRequest rt config authCode))
       (\<lambda>tokenResponse.
          if \<not> ok tokenResponse
          then io_throw (Error [Lit ''Failed to fetch token: '', Lit (rs_statusText tokenResponse)])
          else io_lift (json tokenResponse))"

text \<open>Step 3: follow the redirect of the login response and read the code.\<close>

definition followLogin ::
  "provider \<Rightarrow> runtime \<Rightarrow> AppConfig \<Rightarrow> http_response \<Rightarrow> string \<Rightarrow> jsval io" where
  "followLogin P rt config loginResponse postLoginUrl =
     io_bind (fetch P (postLoginRequest postLoginUrl loginResponse))
       (\<lambda>finalResponse.
          case rt_searchCode rt (headerOrEmpty (rs_headers finalResponse ''location'')) of
            None \<Rightarrow> io_throw TypeError
          | Some authCode \<Rightarrow>
              if \<not> truthy_str authCode
              then io_throw (Error [Lit ''Failed to retrieve authorization code''])
              else exchangeCode P rt config (headerOrEmpty authCode))"

text \<open>Step 2: submit the login credentials.\<close>

definition submitLogin ::
  "provider \<Rightarrow> runtime \<Rightarrow> AppConfig \<Rightarrow> string \<Rightarrow> string \<Rightarrow> string \<Rightarrow> jsval io" where
  "submitLogin P rt config loginUrl username password =
     io_bind (fetch P (loginRequest rt loginUrl username password))
       (\<lambda>loginResponse.
          if \<not> truthy_str (rs_headers loginResponse ''location'')
          then io_throw (Error [Lit ''Login failed, no redirect received''])
          else followLogin P rt config loginResponse
                 (headerOrEmpty (rs_headers loginResponse ''location'')))"

text \<open>Step 1: fetch the authorize URL and check where it redirects to.\<close>

definition authenticate :: "provider \<Rightarrow> runtime \<Rightarrow> string \<Rightarrow> string \<Rightarrow> AppConfig \<Rightarrow> jsval io" where
  "authenticate P rt username password config =
     io_bind (fetch P (authorizeRequest rt config))
       (\<lambda>initialResponse.
          case rs_headers initialResponse ''location'' of
            None \<Rightarrow> io_throw (Error [Lit ''Unexpected redirect during authentication''])
          | Some loginUrl \<Rightarrow>
              if loginUrl = [] \<or> \<not> str_includes loginUrl ''saxobank.com''
              then io_throw (Error [Lit ''Unexpected redirect during authentication''])
              else submitLogin P rt config loginUrl username password)"

datatype Credentials = AccountCredentials string string | TokenCredentials string

text \<open>
  The configuration as the caller gives it. An endpoint may be left out, in which case the
  spread \<^verbatim>\<open>{ apiEndpoint: ..., authEndpoint: ..., ...config }\<close> keeps the default, or be given
  as an explicit \<^verbatim>\<open>undefined\<close>, which the spread copies over the default.
\<close>

datatype endpoint_arg = EndpointOmitted | EndpointUndefined | Endpoint string

record AppConfigArg =
  arg_appKey :: string
  arg_appSecret :: string
  arg_redirectUri :: string
  arg_apiEndpoint :: endpoint_arg
  arg_authEndpoint :: endpoint_arg

text \<open>
  An endpoint is only ever interpolated into a template literal, where \<^verbatim>\<open>undefined\<close> reads
  \<^verbatim>\<open>"undefined"\<close>.
\<close>

fun endpointOr :: "string \<Rightarrow> endpoint_arg \<Rightarrow> string" where
  "endpointOr dflt EndpointOmitted = dflt"
| "endpointOr dflt EndpointUndefined = ''undefined''"
| "endpointOr dflt (Endpoint e) = e"

definition withDefaults :: "AppConfigArg \<Rightarrow> AppConfig" where
  "withDefaults config =
     \<lparr>appKey = arg_appKey config,
      appSecret = arg_appSecret config,
      redirectUri = arg_redirectUri config,
      apiEndpoint = endpointOr ''https://gateway.saxobank.com/sim/openapi'' (arg_apiEndpoint config),
      authEndpoint = endpointOr ''https://sim.logonvalidation.net'' (arg_authEndpoint config)\<rparr>"

record Client =
  cl_id :: jsval
  cl_key :: jsval
  cl_name :: jsval
  cl_env :: client_env

text \<open>
  \<^verbatim>\<open>createClient\<close>: resolve the credentials to a token, read \<^verbatim>\<open>/port/v1/clients/me\<close> and
  bind the operations (here: their captured variables, \<open>cl_env\<close>). With an API endpoint that
  is \<^verbatim>\<open>undefined\<close> the URL of that read is not well-formed, and \<^verbatim>\<open>new URL\<close> throws in
  \<^verbatim>\<open>request\<close> before anything is fetched.
\<close>

definition createClient :: "provider \<Rightarrow> runtime \<Rightarrow> Credentials \<Rightarrow> AppConfigArg \<Rightarrow> Client io" where
  "createClient P rt auth config =
     (let cfg = withDefaults config in
      io_bind
        (case auth of
           TokenCredentials t \<Rightarrow> io_return (JObj [(''access_token'', JStr t)])
         | AccountCredentials username password \<Rightarrow> authenticate P rt username password cfg)
        (\<lambda>token.
           io_bind (io_lift (member token ''access_token''))
             (\<lambda>tok.
                io_bind
                  (io_bind
                     (if arg_apiEndpoint config = EndpointUndefined then io_throw TypeError
                      else request P tok [Lit ''/port/v1/clients/me''] (apiEndpoint cfg) [] ''GET'')
                     (\<lambda>response. io_lift (handleError response)))
                  (\<lambda>client_data.
                     if nullish client_data then io_throw TypeError
                     else io_return
                            \<lparr>cl_id = field client_data ''ClientId'',
                             cl_key = field client_data ''ClientKey'',
                             cl_name = field client_data ''Name'',
                             cl_env = \<lparr>access_token = tok,
                                       client_id = field client_data ''ClientId'',
                                       client_key = field client_data ''ClientKey'',
                                       clientConfig = cfg\<rparr>\<rparr>))))"

section \<open>Notions used to state the properties\<close>

text \<open>Whether an object has a key (\<^verbatim>\<open>k in v\<close>).\<close>

fun has_key :: "jsval \<Rightarrow> string \<Rightarrow> bool" where
  "has_key (JObj kvs) k = (map_of kvs k \<noteq> None)"
| "has_key _ k = False"

text \<open>
  The order id that a position refers back to: the \<^verbatim>\<open>SourceOrderId\<close> of the
  \<^verbatim>\<open>PositionBase\<close> of its raw record.
\<close>

definition backReferencedOrderId :: "Position \<Rightarrow> jsval" where
  "backReferencedOrderId pos = field (field (pos_internal pos) ''PositionBase'') ''SourceOrderId''"

text \<open>An order id as a provider sends it: a string that is not empty, or a number other than 0.\<close>

fun scalar_id :: "jsval \<Rightarrow> bool" where
  "scalar_id (JStr s) = (s \<noteq> [])"
| "scalar_id (JNum (Num r)) = (r \<noteq> 0)"
| "scalar_id _ = False"




text \<open>The request a read operation makes for an endpoint.\<close>

definition readRequest :: "client_env \<Rightarrow> template \<Rightarrow> http_request" where
  "readRequest env endpoint =
     apiRequest (access_token env) endpoint (apiEndpoint (clientConfig env)) [] ''GET''"

text \<open>
  A request fails at the provider when the transport fails (\<^verbatim>\<open>fetch\<close> rejects), when the
  status is outside 200..299, when the body is not JSON, or when the body is a payload that
  the classifier raises on.
\<close>

definition fetchFails :: "provider \<Rightarrow> http_request \<Rightarrow> http_request list \<Rightarrow> bool" where
  "fetchFails P rq tr =
     (case P tr rq of
        Rejected \<Rightarrow> True
      | Resolved r \<Rightarrow>
          (if ok r then (case rs_json r of None \<Rightarrow> True | Some v \<Rightarrow> isl (handleError v))
           else True))"

text \<open>
  The validation table of the specification, read as it is written: an argument is absent
  when it is not given (\<^verbatim>\<open>undefined\<close>) and present when it is.
\<close>

definition specTableViolated :: "string \<Rightarrow> number option \<Rightarrow> number option \<Rightarrow> bool" where
  "specTableViolated orderType price stopLimit =
     ((orderType = ''stop'' \<and> stopLimit = None)
      \<or> (orderType = ''market'' \<and> (price \<noteq> None \<or> stopLimit \<noteq> None))
      \<or> (orderType \<in> set [''limit'', ''stop_limit''] \<and> price = None)
      \<or> orderType \<notin> set [''market'', ''limit'', ''stop'', ''stop_limit''])"

text \<open>
  The same table with absence read as the code tests it: an argument is absent when it is
  falsy, that is not given, 0 or \<^verbatim>\<open>NaN\<close>.
\<close>

definition tableViolated :: "string \<Rightarrow> number option \<Rightarrow> number option \<Rightarrow> bool" where
  "tableViolated orderType price stopLimit =
     ((orderType = ''stop'' \<and> \<not> truthy_arg stopLimit)
      \<or> (orderType = ''market'' \<and> (truthy_arg price \<or> truthy_arg stopLimit))
      \<or> (orderType \<in> set [''limit'', ''stop_limit''] \<and> \<not> truthy_arg price)
      \<or> orderType \<notin> set [''market'', ''limit'', ''stop'', ''stop_limit''])"

text \<open>The four errors of the validation.\<close>

definition validationErrors :: "error list" where
  "validationErrors =
     [Error [Lit ''Stop orders require a stop limit price''],
      Error [Lit ''Market orders cannot have a price or stop limit''],
      Error [Lit ''Limit orders require a price''],
      Error [Lit ''Invalid order type'']]"

section \<open>Example clients and providers\<close>

definition exampleEnv :: client_env where
  "exampleEnv =
     \<lparr>access_token = JStr ''token'',
      client_id = JStr ''C1'',
      client_key = JStr ''K1'',
      clientConfig =
        \<lparr>appKey = ''key'', appSecret = ''secret'', redirectUri = ''http://localhost/callback'',
         apiEndpoint = ''https://gateway.saxobank.com/sim/openapi'',
         authEndpoint = ''https://sim.logonvalidation.net''\<rparr>\<rparr>"

definition noOptions :: OrderOptions where
  "noOptions =
     \<lparr>opt_assetType = None, opt_duration = None, opt_externalReference = None,
      opt_manualOrder = None, opt_isForceOpen = None, opt_trailingStopDistanceToMarket = None,
      opt_trailingStopStep = None\<rparr>"

definition plainResponse :: "nat \<Rightarrow> string \<Rightarrow> jsval option \<Rightarrow> http_response" where
  "plainResponse st txt payload =
     \<lparr>rs_status = st, rs_statusText = txt, rs_headers = (\<lambda>name. None), rs_json = payload\<rparr>"


text \<open>A provider that answers every request with HTTP 500 and no JSON body.\<close>

definition failingProvider :: provider where
  "failingProvider tr rq = Resolved (plainResponse 500 ''Internal Server Error'' None)"

text \<open>
  A provider that answers the first request with the first outcome of a script, the second
  with the second, and so on, and does not answer once the script is used up.
\<close>

definition scriptedProvider :: "outcome list \<Rightarrow> provider" where
  "scriptedProvider script tr rq =
     (if length tr < length script then script ! length tr else Rejected)"

definition accepted42 :: outcome where
  "accepted42 = Resolved (plainResponse 200 ''OK'' (Some (JObj [(''OrderId'', JStr ''42'')])))"

definition notFound :: outcome where
  "notFound = Resolved (plainResponse 404 ''Not Found'' None)"

definition position42 :: jsval where
  "position42 =
     JObj [(''PositionId'', JStr ''P7''),
           (''PositionBase'',
              JObj [(''SourceOrderId'', JStr ''42''), (''Uic'', JNum (Num 21)),
                    (''AccountId'', JStr ''A1''), (''Status'', JStr ''Open''),
                    (''Amount'', JNum (Num 10000)), (''OpenPrice'', JNum (Num 2))]),
           (''PositionView'',
              JObj [(''CurrentPrice'', JNum (Num 3)), (''ExposureCurrency'', JStr ''EUR'')])]"

definition position42_entity :: Position where
  "position42_entity =
     \<lparr>pos_id = JStr ''P7'', pos_uic = JNum (Num 21), pos_client_id = JStr ''C1'',
      pos_account_id = JStr ''A1'', pos_order_id = JStr ''42'', pos_status = JStr ''Open'',
      pos_quantity = JNum (Num 10000), pos_price = JNum (Num 2), pos_value = JNum (Num 3),
      pos_currency = JStr ''EUR'', pos_assetType = JUndefined, pos_internal = position42\<rparr>"

definition order42 :: jsval where
  "order42 =
     JObj [(''OrderId'', JStr ''42''), (''BuySell'', JStr ''Sell''),
           (''OpenOrderType'', JStr ''Limit''), (''Status'', JStr ''Working''),
           (''Price'', JNum (Num 2)), (''Amount'', JNum (Num 10000)), (''Uic'', JNum (Num 21)),
           (''AssetType'', JStr ''FxSpot''), (''AccountId'', JStr ''A1''),
           (''ClientId'', JStr ''C1'')]"

definition dataResponse :: "jsval list \<Rightarrow> outcome" where
  "dataResponse xs = Resolved (plainResponse 200 ''OK'' (Some (JObj [(''Data'', JArr xs)])))"


definition order42_entity :: Order where
  "order42_entity =
     \<lparr>ord_id = JStr ''42'', ord_time = DateOf JUndefined, ord_uic = JNum (Num 21),
      ord_type = JStr ''sell'', ord_order_type = JStr ''limit'', ord_status = JStr ''working'',
      ord_price = JNum (Num 2), ord_quantity = JNum (Num 10000), ord_client_id = JStr ''C1'',
      ord_account_id = JStr ''A1'', ord_exchange_id = JUndefined, ord_assetType = JStr ''FxSpot'',
      ord_externalReference = JUndefined, ord_internal = order42\<rparr>"

definition position41 :: jsval where
  "position41 =
     JObj [(''PositionId'', JStr ''P6''),
           (''PositionBase'',
              JObj [(''SourceOrderId'', JStr ''41''), (''Uic'', JNum (Num 21)),
                    (''AccountId'', JStr ''A1''), (''Status'', JStr ''Open''),
                    (''Amount'', JNum (Num 5000)), (''OpenPrice'', JNum (Num 2))]),
           (''PositionView'',
              JObj [(''CurrentPrice'', JNum (Num 3)), (''ExposureCurrency'', JStr ''EUR'')])]"

definition position41_entity :: Position where
  "position41_entity =
     \<lparr>pos_id = JStr ''P6'', pos_uic = JNum (Num 21), pos_client_id = JStr ''C1'',
      pos_account_id = JStr ''A1'', pos_order_id = JStr ''41'', pos_status = JStr ''Open'',
      pos_quantity = JNum (Num 5000), pos_price = JNum (Num 2), pos_value = JNum (Num 3),
      pos_currency = JStr ''EUR'', pos_assetType = JUndefined, pos_internal = position41\<rparr>"



section \<open>Lemmas\<close>

subsection \<open>Combinators and requests\<close>

lemma io_bind_Inl: "m tr = (Inl e, tr') \<Longrightarrow> io_bind m f tr = (Inl e, tr')"
  by (simp add: io_bind_def)

lemma io_bind_Inr: "m tr = (Inr x, tr') \<Longrightarrow> io_bind m f tr = f x tr'"
  by (simp add: io_bind_def)

lemma io_catch_Inl: "m tr = (Inl e, tr') \<Longrightarrow> io_catch m h tr = h e tr'"
  by (simp add: io_catch_def)

lemma io_catch_Inr: "m tr = (Inr x, tr') \<Longrightarrow> io_catch m h tr = (Inr x, tr')"
  by (simp add: io_catch_def)

lemma io_catch_default_total:
  "\<exists>x. fst (io_catch m (\<lambda>e. io_return d) tr) = Inr x"
  by (simp add: io_catch_def io_return_def split: prod.splits sum.splits)

lemma request_unfold:
  "request P tok ep api q m tr =
     (case P tr (apiRequest tok ep api q m) of
        Rejected \<Rightarrow> (Inl FetchFailed, tr @ [apiRequest tok ep api q m])
      | Resolved r \<Rightarrow>
          (if \<not> ok r then Inl (Error [Lit ''API request failed: '', Lit (rs_statusText r)])
           else json r, tr @ [apiRequest tok ep api q m]))"
  by (simp add: request_def io_bind_def fetch_def io_throw_def io_lift_def split: outcome.splits)

lemma snd_request: "snd (request P tok ep api q m tr) = tr @ [apiRequest tok ep api q m]"
  by (simp add: request_unfold split: outcome.splits)

lemma snd_requestChecked: "snd (requestChecked P env ep tr) = tr @ [readRequest env ep]"
proof -
  obtain a b where ab: "request P (access_token env) ep (apiEndpoint (clientConfig env)) [] ''GET'' tr = (a, b)"
    by (cases "request P (access_token env) ep (apiEndpoint (clientConfig env)) [] ''GET'' tr")
  from ab snd_request [of P "access_token env" ep "apiEndpoint (clientConfig env)" "[]" "''GET''" tr]
  have "b = tr @ [readRequest env ep]" by (simp add: readRequest_def)
  with ab show ?thesis
    by (cases a) (simp_all add: requestChecked_def io_bind_def io_lift_def)
qed

lemma requestChecked_fails:
  assumes "fetchFails P (readRequest env ep) tr"
  shows "\<exists>e. requestChecked P env ep tr = (Inl e, tr @ [readRequest env ep])"
proof (cases "P tr (readRequest env ep)")
  case Rejected
  then show ?thesis
    by (simp add: requestChecked_def readRequest_def request_unfold io_bind_def)
next
  case (Resolved r)
  show ?thesis
  proof (cases "ok r")
    case False
    with Resolved show ?thesis
      by (simp add: requestChecked_def readRequest_def request_unfold io_bind_def)
  next
    case True
    show ?thesis
    proof (cases "rs_json r")
      case None
      with True Resolved show ?thesis
        by (simp add: requestChecked_def readRequest_def request_unfold io_bind_def json_def)
    next
      case (Some v)
      with True Resolved assms obtain e where "handleError v = Inl e"
        by (auto simp: fetchFails_def isl_def)
      with Some True Resolved show ?thesis
        by (simp add: requestChecked_def readRequest_def request_unfold io_bind_def json_def io_lift_def)
    qed
  qed
qed

lemma lenient_read_fails:
  assumes "fetchFails P (readRequest env ep) tr"
  shows "io_catch (io_bind (requestChecked P env ep) f) (\<lambda>error. io_return d) tr
           = (Inr d, tr @ [readRequest env ep])"
proof -
  from requestChecked_fails [OF assms] obtain e
    where "requestChecked P env ep tr = (Inl e, tr @ [readRequest env ep])" ..
  then show ?thesis
    by (simp add: io_catch_def io_bind_def io_return_def)
qed

lemma status_500_fails:
  "P tr rq = Resolved r \<Longrightarrow> rs_status r = 500 \<Longrightarrow> fetchFails P rq tr"
  by (simp add: fetchFails_def ok_def)

subsection \<open>The order lookup of \<^verbatim>\<open>createOrder\<close>\<close>

lemma truthy_field: "truthy (field r k) \<Longrightarrow> truthy r"
  by (cases r) simp_all

lemma getPositions_total: "\<exists>ps. fst (getPositions P env ak tr) = Inr ps"
  unfolding getPositions_def by (rule io_catch_default_total)

lemma lookupOrder_found:
  assumes "request P (access_token env) (orderDetailsEndpoint env response)
             (apiEndpoint (clientConfig env)) [] ''GET'' tr1 = (Inr d, tr2)"
  shows "lookupOrder P env ak response tr1 =
           (Inr (if truthy d then Some (OrderDetails d) else None), tr2)"
  using assms by (simp add: lookupOrder_def io_catch_def io_bind_def io_return_def)

lemma lookupOrder_scan:
  assumes "request P (access_token env) (orderDetailsEndpoint env response)
             (apiEndpoint (clientConfig env)) [] ''GET'' tr1 = (Inl e, tr2)"
    and "getPositions P env (Some ak) tr2 = (Inr positions, tr3)"
  shows "lookupOrder P env ak response tr1 =
           (Inr (case find (sourceOrderIs (field response ''OrderId'')) positions of
                   Some position \<Rightarrow> Some (ResultPosition position) | None \<Rightarrow> None), tr3)"
  using assms by (simp add: lookupOrder_def io_catch_def io_bind_def io_return_def)

lemma lookupOrder_total: "\<exists>found tr'. lookupOrder P env ak response tr1 = (Inr found, tr')"
proof (cases "request P (access_token env) (orderDetailsEndpoint env response)
             (apiEndpoint (clientConfig env)) [] ''GET'' tr1")
  case (Pair a tr2)
  show ?thesis
  proof (cases a)
    case (Inr d)
    with Pair lookupOrder_found show ?thesis by blast
  next
    case (Inl e)
    obtain b tr3 where g: "getPositions P env (Some ak) tr2 = (b, tr3)"
      by (cases "getPositions P env (Some ak) tr2")
    with getPositions_total [of P env "Some ak" tr2] obtain ps where "b = Inr ps" by auto
    with g Inl Pair lookupOrder_scan show ?thesis by blast
  qed
qed

lemma createOrder_submitted:
  assumes "validate (orderTypeOrDefault ota) price stop = None"
    and "submitOrder P env (orderRequest ak ty uic q (orderTypeOrDefault ota) price stop opts) tr
           = (Inr response, tr1)"
    and "truthy (field response ''OrderId'')"
    and "lookupOrder P env ak response tr1 = (Inr found, tr')"
  shows "createOrder P env ak ty uic q ota price stop opts tr =
           (Inr (case found of
                   Some r \<Rightarrow> r
                 | None \<Rightarrow> ResultOrder (fallbackOrder env ak ty uic q (orderTypeOrDefault ota) price
                                            opts response)), tr')"
  using assms truthy_field [of response "''OrderId''"]
  by (simp add: createOrder_def Let_def io_bind_def io_return_def)

subsection \<open>Matching a position by its order id\<close>

lemma strict_eq_scalar: "scalar_id b \<Longrightarrow> strict_eq a b \<longleftrightarrow> a = b"
  by (cases "(a, b)" rule: strict_eq.cases) auto

lemma scalar_id_truthy: "scalar_id b \<Longrightarrow> truthy b"
  by (cases b rule: scalar_id.cases) auto

lemma sourceOrderIs_scalar:
  "scalar_id orderId \<Longrightarrow> sourceOrderIs orderId pos \<longleftrightarrow> backReferencedOrderId pos = orderId"
  by (simp add: sourceOrderIs_def backReferencedOrderId_def strict_eq_scalar)

lemma find_Some_split:
  "find Q xs = Some x \<Longrightarrow> \<exists>pre post. xs = pre @ x # post \<and> Q x \<and> (\<forall>q \<in> set pre. \<not> Q q)"
proof (induction xs)
  case Nil
  then show ?case by simp
next
  case (Cons y ys)
  show ?case
  proof (cases "Q y")
    case True
    with Cons.prems have "x = y" by simp
    with True have "y # ys = [] @ x # ys \<and> Q x \<and> (\<forall>q \<in> set []. \<not> Q q)" by simp
    then show ?thesis by blast
  next
    case False
    with Cons.prems have "find Q ys = Some x" by simp
    from Cons.IH [OF this] obtain pre post
      where "ys = pre @ x # post" "Q x" "\<forall>q \<in> set pre. \<not> Q q" by blast
    with False have "y # ys = (y # pre) @ x # post \<and> Q x \<and> (\<forall>q \<in> set (y # pre). \<not> Q q)"
      by simp
    then show ?thesis by blast
  qed
qed

lemma toPosition_position41: "toPosition (JStr ''C1'') position41 = Inr position41_entity"
  by (simp add: toPosition_def position41_def position41_entity_def Let_def)

subsection \<open>The example providers\<close>

lemma failingProvider_fails: "fetchFails failingProvider rq tr"
  by (simp add: fetchFails_def failingProvider_def plainResponse_def ok_def)

lemma submitOrder_scripted_first:
  "submitOrder (scriptedProvider (Resolved (plainResponse st txt (Some v)) # rest)) env payload [] =
     (handleError v, [jsonRequest env ''POST'' ''/trade/v2/orders'' payload])"
  by (simp add: submitOrder_def fetchJson_def io_bind_def fetch_def scriptedProvider_def
      plainResponse_def json_def io_lift_def split: sum.splits)

lemma toPosition_position42: "toPosition (JStr ''C1'') position42 = Inr position42_entity"
  by (simp add: toPosition_def position42_def position42_entity_def Let_def)

lemma sourceOrderIs_position42: "sourceOrderIs (JStr ''42'') position42_entity"
  by (simp add: sourceOrderIs_def position42_entity_def position42_def)

subsection \<open>Validation and the log of requests\<close>

lemma validate_None_iff: "validate ot p s = None \<longleftrightarrow> \<not> tableViolated ot p s"
  by (auto simp: validate_def tableViolated_def)

lemma validate_Some_in: "validate ot p s = Some e \<Longrightarrow> e \<in> set validationErrors"
  by (auto simp: validate_def validationErrors_def split: if_splits)

lemma createOrder_invalid:
  "validate (orderTypeOrDefault ota) price stop = Some e \<Longrightarrow>
   createOrder P env ak ty uic q ota price stop opts tr = (Inl e, tr)"
  by (simp add: createOrder_def Let_def io_throw_def)

lemma snd_fetchJson: "snd (fetchJson P rq tr) = tr @ [rq]"
  by (simp add: fetchJson_def io_bind_def fetch_def io_lift_def
      split: outcome.splits prod.splits sum.splits)

lemma snd_lenient_read:
  "snd (io_catch (io_bind (requestChecked P env ep) f) (\<lambda>error. io_return d) tr) = snd (io_bind (requestChecked P env ep) f tr)"
  by (simp add: io_catch_def io_return_def split: prod.splits sum.splits)

lemma snd_getPositions:
  "snd (getPositions P env ak tr) = tr @ [readRequest env (portEndpoint ''positions'' (client_key env) ak)]"
proof -
  obtain a b where r: "requestChecked P env (portEndpoint ''positions'' (client_key env) ak) tr = (a, b)"
    by (cases "requestChecked P env (portEndpoint ''positions'' (client_key env) ak) tr")
  with snd_requestChecked [of P env "portEndpoint ''positions'' (client_key env) ak" tr]
  have b: "b = tr @ [readRequest env (portEndpoint ''positions'' (client_key env) ak)]" by simp
  from r b show ?thesis
    by (cases a) (simp_all add: getPositions_def io_catch_def io_bind_def io_return_def io_lift_def
        split: sum.splits)
qed


lemma lookupOrder_extends: "\<exists>rest. snd (lookupOrder P env ak response tr1) = tr1 @ rest"
proof (cases "request P (access_token env) (orderDetailsEndpoint env response)
             (apiEndpoint (clientConfig env)) [] ''GET'' tr1")
  case (Pair a tr2)
  with snd_request [of P "access_token env" "orderDetailsEndpoint env response"
      "apiEndpoint (clientConfig env)" "[]" "''GET''" tr1]
  have tr2: "tr2 = tr1 @ [apiRequest (access_token env) (orderDetailsEndpoint env response)
                           (apiEndpoint (clientConfig env)) [] ''GET'']" by simp
  show ?thesis
  proof (cases a)
    case (Inr d)
    with Pair lookupOrder_found [of P env response tr1 d tr2 ak] tr2 show ?thesis by simp
  next
    case (Inl e)
    obtain b tr3 where g: "getPositions P env (Some ak) tr2 = (b, tr3)"
      by (cases "getPositions P env (Some ak) tr2")
    with getPositions_total [of P env "Some ak" tr2] obtain ps where b: "b = Inr ps" by auto
    from g snd_getPositions [of P env "Some ak" tr2]
    have "tr3 = tr2 @ [readRequest env (portEndpoint ''positions'' (client_key env) (Some ak))]"
      by simp
    with g b Inl Pair tr2 lookupOrder_scan [of P env response tr1 e tr2 ak ps tr3]
    show ?thesis by simp
  qed
qed

lemma createOrder_valid_submits:
  assumes "validate (orderTypeOrDefault ota) price stop = None"
  shows "\<exists>rest. snd (createOrder P env ak ty uic q ota price stop opts tr) =
           tr @ jsonRequest env ''POST'' ''/trade/v2/orders''
                  (orderRequest ak ty uic q (orderTypeOrDefault ota) price stop opts) # rest"
proof -
  let ?rq = "jsonRequest env ''POST'' ''/trade/v2/orders''
                  (orderRequest ak ty uic q (orderTypeOrDefault ota) price stop opts)"
  obtain a tr1 where s: "submitOrder P env (orderRequest ak ty uic q (orderTypeOrDefault ota) price stop opts) tr = (a, tr1)"
    by (cases "submitOrder P env (orderRequest ak ty uic q (orderTypeOrDefault ota) price stop opts) tr")
  with snd_fetchJson [of P ?rq tr] have tr1: "tr1 = tr @ [?rq]"
    by (simp add: submitOrder_def)
  show ?thesis
  proof (cases a)
    case (Inl e)
    with s tr1 assms show ?thesis
      by (simp add: createOrder_def Let_def io_bind_def)
  next
    case (Inr response)
    show ?thesis
    proof (cases "truthy (field response ''OrderId'')")
      case False
      with s tr1 assms Inr show ?thesis
        by (simp add: createOrder_def Let_def io_bind_def io_throw_def)
    next
      case True
      from lookupOrder_total obtain found tr' where l: "lookupOrder P env ak response tr1 = (Inr found, tr')"
        by blast
      with lookupOrder_extends [of P env ak response tr1] obtain rest where "tr' = tr1 @ rest"
        by auto
      then have tr': "tr' = tr @ ?rq # rest" using tr1 by simp
      from s Inr have sub: "submitOrder P env
          (orderRequest ak ty uic q (orderTypeOrDefault ota) price stop opts) tr = (Inr response, tr1)"
        by simp
      from createOrder_submitted [OF assms sub True l] tr' show ?thesis by simp
    qed
  qed
qed

subsection \<open>The keys of the order request\<close>

lemma map_of_spread_num: "k \<noteq> k' \<Longrightarrow> map_of (spread_num k' v) k = None"
  by (cases v) auto

lemma map_of_spread_str: "k \<noteq> k' \<Longrightarrow> map_of (spread_str k' v) k = None"
  by (cases v) auto

lemma map_of_spread_bool: "k \<noteq> k' \<Longrightarrow> map_of (spread_bool k' v) k = None"
  by (cases v) auto

lemma map_of_spread_falsy: "\<not> truthy_arg v \<Longrightarrow> map_of (spread_num k' v) k = None"
  by (cases v) auto

lemma orderRequest_omits_falsy_price:
  assumes "\<not> truthy_arg price"
  shows "\<not> has_key (orderRequest ak ty uic q ot price stop opts) ''OrderPrice''"
  using assms
  by (simp add: orderRequest_def map_add_def map_of_spread_num map_of_spread_str
      map_of_spread_bool map_of_spread_falsy)

lemma orderRequest_omits_falsy_stop:
  assumes "\<not> truthy_arg stop"
  shows "\<not> has_key (orderRequest ak ty uic q ot price stop opts) ''StopLimitPrice''"
  using assms
  by (simp add: orderRequest_def map_add_def map_of_spread_num map_of_spread_str
      map_of_spread_bool map_of_spread_falsy)

subsection \<open>Finding the order to modify\<close>

lemma toLowerCase_Sell: "toLowerCase ''Sell'' = ''sell''"
  by code_simp

lemma toOrder_order42: "toOrder order42 = Inr order42_entity"
  by (simp add: toOrder_def order42_def order42_entity_def toLowerCase_Sell)

lemma getOrders_total: "\<exists>os. fst (getOrders P env ak tr) = Inr os"
  unfolding getOrders_def by (rule io_catch_default_total)



lemma getOrders_scripted_order42:
  "getOrders (scriptedProvider (dataResponse [order42] # rest)) exampleEnv (Some ''A1'') [] =
     (Inr [order42_entity],
      [readRequest exampleEnv (portEndpoint ''orders'' (client_key exampleEnv) (Some ''A1''))])"
  by (simp add: getOrders_def requestChecked_def request_unfold scriptedProvider_def
        dataResponse_def plainResponse_def ok_def json_def io_catch_def io_bind_def io_lift_def
        handleError_def mapData_def toOrder_order42 readRequest_def exampleEnv_def)







subsection \<open>The steps of the login flow\<close>












subsection \<open>The host of a redirect\<close>





subsection \<open>The pre-check reads the body whatever the status\<close>

lemma preCheckOrder_ignores_status:
  assumes "P tr (jsonRequest env ''POST'' ''/trade/v2/orders/precheck'' orderRequest_arg) = Resolved r"
    and "rs_json r = Some v"
    and "handleError v = Inr v"
  shows "preCheckOrder P env orderRequest_arg tr =
           (toPreCheckResult v, tr @ [jsonRequest env ''POST'' ''/trade/v2/orders/precheck'' orderRequest_arg])"
  using assms
  by (simp add: preCheckOrder_def fetchJson_def io_bind_def fetch_def io_lift_def json_def
      split: sum.splits)

lemma preCheckOrder_http_500_example:
  "fst (preCheckOrder
          (scriptedProvider
             [Resolved (plainResponse 500 ''Internal Server Error'' (Some (JObj [(''Message'', JStr ''boom'')])))])
          exampleEnv (JObj []) [])
     = Inr \<lparr>estimatedCosts = None, marginImpact = None, errorInfo = None, preCheckResult = None\<rparr>"
proof -
  let ?v = "JObj [(''Message'', JStr ''boom'')]"
  let ?r = "plainResponse 500 ''Internal Server Error'' (Some ?v)"
  have 1: "scriptedProvider [Resolved ?r] []
             (jsonRequest exampleEnv ''POST'' ''/trade/v2/orders/precheck'' (JObj [])) = Resolved ?r"
    by (simp add: scriptedProvider_def)
  have 2: "rs_json ?r = Some ?v" by (simp add: plainResponse_def)
  have 3: "handleError ?v = Inr ?v" by (simp add: handleError_def)
  have 4: "toPreCheckResult ?v =
             Inr \<lparr>estimatedCosts = None, marginImpact = None, errorInfo = None, preCheckResult = None\<rparr>"
    by (simp add: toPreCheckResult_def)
  from preCheckOrder_ignores_status
         [where P = "scriptedProvider [Resolved ?r]" and tr = "[]" and env = exampleEnv
            and orderRequest_arg = "JObj []" and r = ?r and v = ?v, OF 1 2 3] 4
  show ?thesis by simp
qed

section \<open>Properties of the error classifier\<close>

text \<open>
  C5 (as amended). The classifier tests its payload by truthiness. A payload whose top-level
  \<^verbatim>\<open>ErrorCode\<close> is truthy raises an \<^verbatim>\<open>Error\<close> whose message embeds that \<^verbatim>\<open>ErrorCode\<close>, the
  \<^verbatim>\<open>Message\<close> and the serialised \<^verbatim>\<open>ModelState\<close>; otherwise a payload whose \<^verbatim>\<open>ErrorInfo\<close> is
  truthy raises an \<^verbatim>\<open>Error\<close> whose message embeds \<^verbatim>\<open>ErrorInfo.ErrorCode\<close> and
  \<^verbatim>\<open>ErrorInfo.Message\<close>; every other payload, also one whose \<^verbatim>\<open>ErrorCode\<close> or \<^verbatim>\<open>ErrorInfo\<close>
  is present but falsy, is returned unchanged. In particular the payload
  \<^verbatim>\<open>{ErrorCode:"X", Message:"bad", ModelState:ms}\<close> raises the error whose message is built from
  \<^verbatim>\<open>"X"\<close>, \<^verbatim>\<open>"bad"\<close> and \<^verbatim>\<open>ms\<close>, and so does a request whose successful response has that
  payload as its body.
\<close>

theorem handleError_classification:
  "(truthy (field r ''ErrorCode'') \<longrightarrow>
      handleError r =
        Inl (Error [Lit ''API request failed with error '', Interp (field r ''ErrorCode''),
                    Lit '': '', Interp (field r ''Message''), Lit (CHR 0x0A # ''    ''),
                    Stringify (field r ''ModelState''), Lit [CHR 0x0A]])) \<and>
   (\<not> truthy (field r ''ErrorCode'') \<and> truthy (field r ''ErrorInfo'') \<longrightarrow>
      handleError r =
        Inl (Error [Lit ''API request failed with error '',
                    Interp (field (field r ''ErrorInfo'') ''ErrorCode''), Lit '': '',
                    Interp (field (field r ''ErrorInfo'') ''Message'')])) \<and>
   (\<not> truthy (field r ''ErrorCode'') \<and> \<not> truthy (field r ''ErrorInfo'') \<longrightarrow>
      handleError r = Inr r) \<and>
   handleError (JObj [(''ErrorCode'', JStr ''X''), (''Message'', JStr ''bad''), (''ModelState'', ms)]) =
     Inl (Error [Lit ''API request failed with error '', Interp (JStr ''X''), Lit '': '',
                 Interp (JStr ''bad''), Lit (CHR 0x0A # ''    ''), Stringify ms, Lit [CHR 0x0A]]) \<and>
   (P tr (readRequest env ep) = Resolved resp \<and> ok resp \<and>
    rs_json resp =
      Some (JObj [(''ErrorCode'', JStr ''X''), (''Message'', JStr ''bad''), (''ModelState'', ms)]) \<longrightarrow>
      requestChecked P env ep tr =
        (Inl (Error [Lit ''API request failed with error '', Interp (JStr ''X''), Lit '': '',
                     Interp (JStr ''bad''), Lit (CHR 0x0A # ''    ''), Stringify ms, Lit [CHR 0x0A]]),
         tr @ [readRequest env ep]))"
proof (intro conjI impI)
  assume "truthy (field r ''ErrorCode'')"
  then show "handleError r =
        Inl (Error [Lit ''API request failed with error '', Interp (field r ''ErrorCode''),
                    Lit '': '', Interp (field r ''Message''), Lit (CHR 0x0A # ''    ''),
                    Stringify (field r ''ModelState''), Lit [CHR 0x0A]])"
    by (simp add: handleError_def Let_def)
next
  assume "\<not> truthy (field r ''ErrorCode'') \<and> truthy (field r ''ErrorInfo'')"
  then show "handleError r =
        Inl (Error [Lit ''API request failed with error '',
                    Interp (field (field r ''ErrorInfo'') ''ErrorCode''), Lit '': '',
                    Interp (field (field r ''ErrorInfo'') ''Message'')])"
    by (simp add: handleError_def Let_def)
next
  assume "\<not> truthy (field r ''ErrorCode'') \<and> \<not> truthy (field r ''ErrorInfo'')"
  then show "handleError r = Inr r"
    by (simp add: handleError_def)
next
  show x: "handleError (JObj [(''ErrorCode'', JStr ''X''), (''Message'', JStr ''bad''), (''ModelState'', ms)]) =
     Inl (Error [Lit ''API request failed with error '', Interp (JStr ''X''), Lit '': '',
                 Interp (JStr ''bad''), Lit (CHR 0x0A # ''    ''), Stringify ms, Lit [CHR 0x0A]])"
    by (simp add: handleError_def Let_def)
  assume "P tr (readRequest env ep) = Resolved resp \<and> ok resp \<and>
    rs_json resp =
      Some (JObj [(''ErrorCode'', JStr ''X''), (''Message'', JStr ''bad''), (''ModelState'', ms)])"
  with x show "requestChecked P env ep tr =
        (Inl (Error [Lit ''API request failed with error '', Interp (JStr ''X''), Lit '': '',
                     Interp (JStr ''bad''), Lit (CHR 0x0A # ''    ''), Stringify ms, Lit [CHR 0x0A]]),
         tr @ [readRequest env ep])"
    by (simp add: requestChecked_def readRequest_def request_unfold io_bind_def io_lift_def json_def)
qed

theorem handleError_classification_witness:
  "truthy (field (JObj [(''ErrorCode'', JStr ''X''), (''Message'', JStr ''bad'')]) ''ErrorCode'') \<and>
   handleError (JObj [(''ErrorCode'', JStr ''X''), (''Message'', JStr ''bad'')]) =
     Inl (Error [Lit ''API request failed with error '', Interp (JStr ''X''), Lit '': '',
                 Interp (JStr ''bad''), Lit (CHR 0x0A # ''    ''), Stringify JUndefined,
                 Lit [CHR 0x0A]]) \<and>
   \<not> truthy (field (JObj [(''ErrorInfo'', JObj [(''ErrorCode'', JStr ''E''), (''Message'', JStr ''m'')])])
                ''ErrorCode'') \<and>
   truthy (field (JObj [(''ErrorInfo'', JObj [(''ErrorCode'', JStr ''E''), (''Message'', JStr ''m'')])])
             ''ErrorInfo'') \<and>
   handleError (JObj [(''ErrorInfo'', JObj [(''ErrorCode'', JStr ''E''), (''Message'', JStr ''m'')])]) =
     Inl (Error [Lit ''API request failed with error '', Interp (JStr ''E''), Lit '': '',
                 Interp (JStr ''m'')]) \<and>
   \<not> truthy (field (JObj [(''Data'', JArr [])]) ''ErrorCode'') \<and>
   \<not> truthy (field (JObj [(''Data'', JArr [])]) ''ErrorInfo'') \<and>
   handleError (JObj [(''Data'', JArr [])]) = Inr (JObj [(''Data'', JArr [])]) \<and>
   ok (plainResponse 200 ''OK''
         (Some (JObj [(''ErrorCode'', JStr ''X''), (''Message'', JStr ''bad''),
                      (''ModelState'', JObj [])]))) \<and>
   fst (getPositions
          (scriptedProvider
             [Resolved (plainResponse 200 ''OK''
                (Some (JObj [(''ErrorCode'', JStr ''X''), (''Message'', JStr ''bad''),
                             (''ModelState'', JObj [])])))])
          exampleEnv None []) = Inr [] \<and>
   fst (requestChecked
          (scriptedProvider
             [Resolved (plainResponse 200 ''OK''
                (Some (JObj [(''ErrorCode'', JStr ''X''), (''Message'', JStr ''bad''),
                             (''ModelState'', JObj [])])))])
          exampleEnv [Lit ''/port/v1/clients/me''] []) =
     Inl (Error [Lit ''API request failed with error '', Interp (JStr ''X''), Lit '': '',
                 Interp (JStr ''bad''), Lit (CHR 0x0A # ''    ''), Stringify (JObj []),
                 Lit [CHR 0x0A]])"
proof -
  let ?payload = "JObj [(''ErrorCode'', JStr ''X''), (''Message'', JStr ''bad''), (''ModelState'', JObj [])]"
  let ?resp = "plainResponse 200 ''OK'' (Some ?payload)"
  let ?P = "scriptedProvider [Resolved ?resp]"
  have okr: "ok ?resp" by (simp add: ok_def plainResponse_def)
  have js: "rs_json ?resp = Some ?payload" by (simp add: plainResponse_def)
  have p: "?P [] rq = Resolved ?resp" for rq by (simp add: scriptedProvider_def)
  note consumed_me = handleError_classification
     [where P = ?P and tr = "[]" and resp = ?resp and ms = "JObj []" and env = exampleEnv
        and ep = "[Lit ''/port/v1/clients/me'']",
      THEN conjunct2, THEN conjunct2, THEN conjunct2, THEN conjunct2]
  note consumed_positions = handleError_classification
     [where P = ?P and tr = "[]" and resp = ?resp and ms = "JObj []" and env = exampleEnv
        and ep = "portEndpoint ''positions'' (client_key exampleEnv) None",
      THEN conjunct2, THEN conjunct2, THEN conjunct2, THEN conjunct2]
  from consumed_me p okr js
  have a: "fst (requestChecked ?P exampleEnv [Lit ''/port/v1/clients/me''] []) =
     Inl (Error [Lit ''API request failed with error '', Interp (JStr ''X''), Lit '': '',
                 Interp (JStr ''bad''), Lit (CHR 0x0A # ''    ''), Stringify (JObj []),
                 Lit [CHR 0x0A]])"
    by simp
  from consumed_positions p okr js
  have "requestChecked ?P exampleEnv (portEndpoint ''positions'' (client_key exampleEnv) None) [] =
      (Inl (Error [Lit ''API request failed with error '', Interp (JStr ''X''), Lit '': '',
                 Interp (JStr ''bad''), Lit (CHR 0x0A # ''    ''), Stringify (JObj []),
                 Lit [CHR 0x0A]]),
       [readRequest exampleEnv (portEndpoint ''positions'' (client_key exampleEnv) None)])"
    by simp
  then have b: "fst (getPositions ?P exampleEnv None []) = Inr []"
    by (simp add: getPositions_def io_catch_def io_bind_def io_return_def)
  from handleError_classification [where r = "JObj [(''ErrorCode'', JStr ''X''), (''Message'', JStr ''bad'')]"]
  have c1: "handleError (JObj [(''ErrorCode'', JStr ''X''), (''Message'', JStr ''bad'')]) =
     Inl (Error [Lit ''API request failed with error '', Interp (JStr ''X''), Lit '': '',
                 Interp (JStr ''bad''), Lit (CHR 0x0A # ''    ''), Stringify JUndefined,
                 Lit [CHR 0x0A]])"
    by simp
  from handleError_classification
          [where r = "JObj [(''ErrorInfo'', JObj [(''ErrorCode'', JStr ''E''), (''Message'', JStr ''m'')])]"]
  have c2: "handleError (JObj [(''ErrorInfo'', JObj [(''ErrorCode'', JStr ''E''), (''Message'', JStr ''m'')])]) =
     Inl (Error [Lit ''API request failed with error '', Interp (JStr ''E''), Lit '': '',
                 Interp (JStr ''m'')])"
    by simp
  from handleError_classification [where r = "JObj [(''Data'', JArr [])]"]
  have c3: "handleError (JObj [(''Data'', JArr [])]) = Inr (JObj [(''Data'', JArr [])])"
    by simp
  from c1 c2 c3 okr b a show ?thesis by simp
qed

text \<open>
  C5 as stated fails: a payload with a top-level \<^verbatim>\<open>ErrorCode\<close> that is the empty string is
  not classified as an error; it is returned unchanged.
\<close>

theorem handleError_falsy_code_counterexample:
  "handleError (JObj [(''ErrorCode'', JStr ''''), (''Message'', JStr ''bad'')]) =
     Inr (JObj [(''ErrorCode'', JStr ''''), (''Message'', JStr ''bad'')])"
  by (simp add: handleError_def)

section \<open>Lenient reads\<close>

text \<open>
  C6. The read operations \<^verbatim>\<open>getPositions\<close>, \<^verbatim>\<open>getOrders\<close>, \<^verbatim>\<open>getNetPositions\<close>,
  \<^verbatim>\<open>getClosedPositions\<close> and \<^verbatim>\<open>getExposure\<close> never throw once their request is made, and when
  the request fails (transport error, status outside 200..299, unparseable body or classified
  provider error payload) the list operations return \<^verbatim>\<open>[]\<close> and \<^verbatim>\<open>getExposure\<close> returns
  \<^verbatim>\<open>{}\<close>. In particular \<^verbatim>\<open>getPositions\<close> against a provider answering HTTP 500 yields \<^verbatim>\<open>[]\<close>.
  (\<^verbatim>\<open>getClosedPositions\<close> builds its endpoint from its date arguments before the request;
  the statement is about the calls that reach the request.)
\<close>

theorem lenient_reads_swallow_failures:
  "(\<exists>ps. fst (getPositions P env ak tr) = Inr ps) \<and>
   (\<exists>os. fst (getOrders P env ak tr) = Inr os) \<and>
   (\<exists>ps. fst (getNetPositions P env ak tr) = Inr ps) \<and>
   (\<exists>v. fst (getExposure P env ak tr) = Inr v) \<and>
   (\<forall>ep. closedPositionsEndpoint (client_key env) ak fromDate toDate = Inr ep \<longrightarrow>
      (\<exists>ps. fst (getClosedPositions P env ak fromDate toDate tr) = Inr ps)) \<and>
   (fetchFails P (readRequest env (portEndpoint ''positions'' (client_key env) ak)) tr \<longrightarrow>
      getPositions P env ak tr =
        (Inr [], tr @ [readRequest env (portEndpoint ''positions'' (client_key env) ak)])) \<and>
   (fetchFails P (readRequest env (portEndpoint ''orders'' (client_key env) ak)) tr \<longrightarrow>
      getOrders P env ak tr =
        (Inr [], tr @ [readRequest env (portEndpoint ''orders'' (client_key env) ak)])) \<and>
   (fetchFails P (readRequest env (portEndpoint ''netpositions'' (client_key env) ak)) tr \<longrightarrow>
      getNetPositions P env ak tr =
        (Inr [], tr @ [readRequest env (portEndpoint ''netpositions'' (client_key env) ak)])) \<and>
   (\<forall>ep. closedPositionsEndpoint (client_key env) ak fromDate toDate = Inr ep \<and>
         fetchFails P (readRequest env ep) tr \<longrightarrow>
      getClosedPositions P env ak fromDate toDate tr = (Inr [], tr @ [readRequest env ep])) \<and>
   (fetchFails P (readRequest env (portEndpoint ''exposure'' (client_key env) ak)) tr \<longrightarrow>
      getExposure P env ak tr =
        (Inr (JObj []), tr @ [readRequest env (portEndpoint ''exposure'' (client_key env) ak)])) \<and>
   (\<forall>r. P tr (readRequest env (portEndpoint ''positions'' (client_key env) ak)) = Resolved r \<and>
        rs_status r = 500 \<longrightarrow>
      fst (getPositions P env ak tr) = Inr [])"
proof (intro conjI allI impI)
  show "\<exists>ps. fst (getPositions P env ak tr) = Inr ps"
    unfolding getPositions_def by (rule io_catch_default_total)
  show "\<exists>os. fst (getOrders P env ak tr) = Inr os"
    unfolding getOrders_def by (rule io_catch_default_total)
  show "\<exists>ps. fst (getNetPositions P env ak tr) = Inr ps"
    unfolding getNetPositions_def by (rule io_catch_default_total)
  show "\<exists>v. fst (getExposure P env ak tr) = Inr v"
    unfolding getExposure_def by (rule io_catch_default_total)
next
  fix ep assume "closedPositionsEndpoint (client_key env) ak fromDate toDate = Inr ep"
  then show "\<exists>ps. fst (getClosedPositions P env ak fromDate toDate tr) = Inr ps"
    by (simp add: getClosedPositions_def io_catch_default_total)
next
  assume "fetchFails P (readRequest env (portEndpoint ''positions'' (client_key env) ak)) tr"
  then show "getPositions P env ak tr =
        (Inr [], tr @ [readRequest env (portEndpoint ''positions'' (client_key env) ak)])"
    unfolding getPositions_def by (rule lenient_read_fails)
next
  assume "fetchFails P (readRequest env (portEndpoint ''orders'' (client_key env) ak)) tr"
  then show "getOrders P env ak tr =
        (Inr [], tr @ [readRequest env (portEndpoint ''orders'' (client_key env) ak)])"
    unfolding getOrders_def by (rule lenient_read_fails)
next
  assume "fetchFails P (readRequest env (portEndpoint ''netpositions'' (client_key env) ak)) tr"
  then show "getNetPositions P env ak tr =
        (Inr [], tr @ [readRequest env (portEndpoint ''netpositions'' (client_key env) ak)])"
    unfolding getNetPositions_def by (rule lenient_read_fails)
next
  fix ep
  assume "closedPositionsEndpoint (client_key env) ak fromDate toDate = Inr ep \<and>
         fetchFails P (readRequest env ep) tr"
  then show "getClosedPositions P env ak fromDate toDate tr = (Inr [], tr @ [readRequest env ep])"
    by (simp add: getClosedPositions_def lenient_read_fails)
next
  assume f: "fetchFails P (readRequest env (portEndpoint ''exposure'' (client_key env) ak)) tr"
  from requestChecked_fails [OF f] obtain e where
    "requestChecked P env (portEndpoint ''exposure'' (client_key env) ak) tr =
       (Inl e, tr @ [readRequest env (portEndpoint ''exposure'' (client_key env) ak)])" ..
  then show "getExposure P env ak tr =
        (Inr (JObj []), tr @ [readRequest env (portEndpoint ''exposure'' (client_key env) ak)])"
    by (simp add: getExposure_def io_catch_def io_return_def)
next
  fix r
  assume "P tr (readRequest env (portEndpoint ''positions'' (client_key env) ak)) = Resolved r \<and>
        rs_status r = 500"
  then have "fetchFails P (readRequest env (portEndpoint ''positions'' (client_key env) ak)) tr"
    by (simp add: status_500_fails)
  then have "getPositions P env ak tr =
        (Inr [], tr @ [readRequest env (portEndpoint ''positions'' (client_key env) ak)])"
    unfolding getPositions_def by (rule lenient_read_fails)
  then show "fst (getPositions P env ak tr) = Inr []" by simp
qed

theorem lenient_reads_swallow_failures_witness:
  "fetchFails failingProvider
     (readRequest exampleEnv (portEndpoint ''positions'' (client_key exampleEnv) (Some ''A1''))) [] \<and>
   getPositions failingProvider exampleEnv (Some ''A1'') [] =
     (Inr [], [readRequest exampleEnv (portEndpoint ''positions'' (client_key exampleEnv) (Some ''A1''))]) \<and>
   getOrders failingProvider exampleEnv (Some ''A1'') [] =
     (Inr [], [readRequest exampleEnv (portEndpoint ''orders'' (client_key exampleEnv) (Some ''A1''))]) \<and>
   getNetPositions failingProvider exampleEnv (Some ''A1'') [] =
     (Inr [], [readRequest exampleEnv (portEndpoint ''netpositions'' (client_key exampleEnv) (Some ''A1''))]) \<and>
   closedPositionsEndpoint (client_key exampleEnv) (Some ''A1'') None None =
     Inr (portEndpoint ''closedpositions'' (client_key exampleEnv) (Some ''A1'')) \<and>
   getClosedPositions failingProvider exampleEnv (Some ''A1'') None None [] =
     (Inr [], [readRequest exampleEnv (portEndpoint ''closedpositions'' (client_key exampleEnv) (Some ''A1''))]) \<and>
   getExposure failingProvider exampleEnv (Some ''A1'') [] =
     (Inr (JObj []), [readRequest exampleEnv (portEndpoint ''exposure'' (client_key exampleEnv) (Some ''A1''))]) \<and>
   rs_status (plainResponse 500 ''Internal Server Error'' None) = 500"
proof -
  have c: "closedPositionsEndpoint (client_key exampleEnv) (Some ''A1'') None None =
     Inr (portEndpoint ''closedpositions'' (client_key exampleEnv) (Some ''A1''))"
    by (simp add: closedPositionsEndpoint_def)
  from lenient_reads_swallow_failures
         [of failingProvider exampleEnv "Some ''A1''" "[]" None None]
       failingProvider_fails c
  show ?thesis by (simp add: plainResponse_def)
qed

section \<open>Reconciliation after a submission\<close>

text \<open>
  C1. When the arguments pass validation, the submission response carries an order id (a
  non-empty string or a non-zero number), the fetch of the order by its id fails, and the
  positions of the account contain a position whose back-referenced
  \<^verbatim>\<open>PositionBase.SourceOrderId\<close> equals the submitted order id, then \<^verbatim>\<open>createOrder\<close> returns
  a position of that list, not a synthesized order: the first one whose back-referenced
  source order id equals the submitted order id.
\<close>

theorem createOrder_returns_matching_position:
  assumes "validate (orderTypeOrDefault ota) price stop = None"
    and "submitOrder P env (orderRequest ak ty uic q (orderTypeOrDefault ota) price stop opts) tr
           = (Inr response, tr1)"
    and "field response ''OrderId'' = orderId"
    and "scalar_id orderId"
    and "request P (access_token env) (orderDetailsEndpoint env response)
           (apiEndpoint (clientConfig env)) [] ''GET'' tr1 = (Inl e, tr2)"
    and "getPositions P env (Some ak) tr2 = (Inr positions, tr3)"
    and "pos \<in> set positions"
    and "backReferencedOrderId pos = orderId"
  shows "\<exists>p pre post.
           createOrder P env ak ty uic q ota price stop opts tr = (Inr (ResultPosition p), tr3)
           \<and> positions = pre @ p # post
           \<and> backReferencedOrderId p = orderId
           \<and> (\<forall>earlier \<in> set pre. backReferencedOrderId earlier \<noteq> orderId)"
proof -
  from assms(4,7,8) have "\<exists>x \<in> set positions. sourceOrderIs orderId x"
    by (auto simp: sourceOrderIs_scalar)
  then obtain p where p: "find (sourceOrderIs orderId) positions = Some p"
    by (cases "find (sourceOrderIs orderId) positions") (auto simp: find_None_iff)
  from find_Some_split [OF p] obtain pre post
    where s: "positions = pre @ p # post" "sourceOrderIs orderId p"
      "\<forall>x \<in> set pre. \<not> sourceOrderIs orderId x" by blast
  with assms(4) have m: "backReferencedOrderId p = orderId"
    "\<forall>earlier \<in> set pre. backReferencedOrderId earlier \<noteq> orderId"
    by (simp_all add: sourceOrderIs_scalar)
  from assms(3,4) have t: "truthy (field response ''OrderId'')"
    by (simp add: scalar_id_truthy)
  from lookupOrder_scan [OF assms(5,6)] p assms(3)
  have "lookupOrder P env ak response tr1 = (Inr (Some (ResultPosition p)), tr3)" by simp
  from createOrder_submitted [OF assms(1,2) t this]
  have "createOrder P env ak ty uic q ota price stop opts tr = (Inr (ResultPosition p), tr3)" by simp
  with s(1) m show ?thesis by blast
qed

theorem createOrder_returns_matching_position_witness:
  "validate (orderTypeOrDefault None) None None = None \<and>
   scalar_id (JStr ''42'') \<and>
   position42_entity \<in> set [position41_entity, position42_entity] \<and>
   backReferencedOrderId position41_entity = JStr ''41'' \<and>
   backReferencedOrderId position42_entity = JStr ''42'' \<and>
   fst (createOrder (scriptedProvider [accepted42, notFound, dataResponse [position41, position42]])
          exampleEnv ''A1'' ''buy'' (Num 21) (Num 10000) None None None noOptions [])
     = Inr (ResultPosition position42_entity)"
proof -
  let ?P = "scriptedProvider [accepted42, notFound, dataResponse [position41, position42]]"
  let ?resp = "JObj [(''OrderId'', JStr ''42'')]"
  let ?payload = "orderRequest ''A1'' ''buy'' (Num 21) (Num 10000) (orderTypeOrDefault None) None None noOptions"
  let ?rq1 = "jsonRequest exampleEnv ''POST'' ''/trade/v2/orders'' ?payload"
  let ?rq2 = "apiRequest (access_token exampleEnv) (orderDetailsEndpoint exampleEnv ?resp)
                (apiEndpoint (clientConfig exampleEnv)) [] ''GET''"
  let ?rq3 = "readRequest exampleEnv (portEndpoint ''positions'' (client_key exampleEnv) (Some ''A1''))"
  have h1: "validate (orderTypeOrDefault None) None None = None"
    by (simp add: validate_def)
  have h2: "submitOrder ?P exampleEnv ?payload [] = (Inr ?resp, [?rq1])"
    by (simp add: accepted42_def submitOrder_scripted_first handleError_def)
  have h3: "field ?resp ''OrderId'' = JStr ''42''" by simp
  have h4: "scalar_id (JStr ''42'')" by simp
  have h5: "request ?P (access_token exampleEnv) (orderDetailsEndpoint exampleEnv ?resp)
              (apiEndpoint (clientConfig exampleEnv)) [] ''GET'' [?rq1]
            = (Inl (Error [Lit ''API request failed: '', Lit ''Not Found'']), [?rq1, ?rq2])"
    by (simp add: request_unfold scriptedProvider_def notFound_def plainResponse_def ok_def)
  have h6: "getPositions ?P exampleEnv (Some ''A1'') [?rq1, ?rq2]
            = (Inr [position41_entity, position42_entity], [?rq1, ?rq2, ?rq3])"
    by (simp add: getPositions_def requestChecked_def request_unfold scriptedProvider_def
        dataResponse_def plainResponse_def ok_def json_def io_catch_def io_bind_def io_lift_def
        handleError_def mapData_def toPosition_position42 toPosition_position41 readRequest_def
        exampleEnv_def)
  have h7: "position42_entity \<in> set [position41_entity, position42_entity]" by simp
  have b41: "backReferencedOrderId position41_entity = JStr ''41''"
    by (simp add: backReferencedOrderId_def position41_entity_def position41_def)
  have b42: "backReferencedOrderId position42_entity = JStr ''42''"
    by (simp add: backReferencedOrderId_def position42_entity_def position42_def)
  from createOrder_returns_matching_position [OF h1 h2 h3 h4 h5 h6 h7 b42]
  obtain p pre post where r: "createOrder ?P exampleEnv ''A1'' ''buy'' (Num 21) (Num 10000) None
        None None noOptions [] = (Inr (ResultPosition p), [?rq1, ?rq2, ?rq3])"
    and s: "[position41_entity, position42_entity] = pre @ p # post"
    and m: "backReferencedOrderId p = JStr ''42''" by blast
  from s have "p = position41_entity \<or> p = position42_entity"
    by (metis in_set_conv_decomp insert_iff list.simps(15) empty_iff empty_set)
  with m b41 have "p = position42_entity" by auto
  with r h1 h4 h7 b41 b42 show ?thesis by simp
qed

text \<open>
  C3. Once the submission response carries an order id, \<^verbatim>\<open>createOrder\<close> does not throw: it
  always returns a result. When the order fetch gives a falsy payload, or fails and the
  position scan finds no position for the order id, the result is the order synthesized
  from the submission parameters, with status \<^verbatim>\<open>"working"\<close>.
\<close>

theorem createOrder_never_fails_once_submitted:
  assumes "validate (orderTypeOrDefault ota) price stop = None"
    and "submitOrder P env (orderRequest ak ty uic q (orderTypeOrDefault ota) price stop opts) tr
           = (Inr response, tr1)"
    and "truthy (field response ''OrderId'')"
  shows "(\<exists>r tr'. createOrder P env ak ty uic q ota price stop opts tr = (Inr r, tr')) \<and>
         (\<forall>d tr2. request P (access_token env) (orderDetailsEndpoint env response)
                    (apiEndpoint (clientConfig env)) [] ''GET'' tr1 = (Inr d, tr2) \<and> \<not> truthy d \<longrightarrow>
            createOrder P env ak ty uic q ota price stop opts tr =
              (Inr (ResultOrder (fallbackOrder env ak ty uic q (orderTypeOrDefault ota) price opts
                                   response)), tr2)) \<and>
         (\<forall>e tr2 positions tr3.
            request P (access_token env) (orderDetailsEndpoint env response)
              (apiEndpoint (clientConfig env)) [] ''GET'' tr1 = (Inl e, tr2) \<and>
            getPositions P env (Some ak) tr2 = (Inr positions, tr3) \<and>
            find (sourceOrderIs (field response ''OrderId'')) positions = None \<longrightarrow>
            createOrder P env ak ty uic q ota price stop opts tr =
              (Inr (ResultOrder (fallbackOrder env ak ty uic q (orderTypeOrDefault ota) price opts
                                   response)), tr3)) \<and>
         ord_status (fallbackOrder env ak ty uic q (orderTypeOrDefault ota) price opts response)
           = JStr ''working'' \<and>
         ord_id (fallbackOrder env ak ty uic q (orderTypeOrDefault ota) price opts response)
           = field response ''OrderId'' \<and>
         ord_type (fallbackOrder env ak ty uic q (orderTypeOrDefault ota) price opts response)
           = JStr ty \<and>
         ord_order_type (fallbackOrder env ak ty uic q (orderTypeOrDefault ota) price opts response)
           = JStr (orderTypeOrDefault ota) \<and>
         ord_uic (fallbackOrder env ak ty uic q (orderTypeOrDefault ota) price opts response)
           = JNum uic \<and>
         ord_quantity (fallbackOrder env ak ty uic q (orderTypeOrDefault ota) price opts response)
           = JNum q \<and>
         ord_account_id (fallbackOrder env ak ty uic q (orderTypeOrDefault ota) price opts response)
           = JStr ak"
proof (intro conjI allI impI)
  from lookupOrder_total obtain found tr' where
    "lookupOrder P env ak response tr1 = (Inr found, tr')" by blast
  from createOrder_submitted [OF assms this]
  show "\<exists>r tr'. createOrder P env ak ty uic q ota price stop opts tr = (Inr r, tr')" by blast
next
  fix d tr2
  assume a: "request P (access_token env) (orderDetailsEndpoint env response)
                    (apiEndpoint (clientConfig env)) [] ''GET'' tr1 = (Inr d, tr2) \<and> \<not> truthy d"
  then have "lookupOrder P env ak response tr1 = (Inr None, tr2)"
    using lookupOrder_found [of P env response tr1 d tr2 ak] by simp
  from createOrder_submitted [OF assms this]
  show "createOrder P env ak ty uic q ota price stop opts tr =
              (Inr (ResultOrder (fallbackOrder env ak ty uic q (orderTypeOrDefault ota) price opts
                                   response)), tr2)" by simp
next
  fix e tr2 positions tr3
  assume a: "request P (access_token env) (orderDetailsEndpoint env response)
              (apiEndpoint (clientConfig env)) [] ''GET'' tr1 = (Inl e, tr2) \<and>
            getPositions P env (Some ak) tr2 = (Inr positions, tr3) \<and>
            find (sourceOrderIs (field response ''OrderId'')) positions = None"
  then have "lookupOrder P env ak response tr1 = (Inr None, tr3)"
    using lookupOrder_scan [of P env response tr1 e tr2 ak positions tr3] by simp
  from createOrder_submitted [OF assms this]
  show "createOrder P env ak ty uic q ota price stop opts tr =
              (Inr (ResultOrder (fallbackOrder env ak ty uic q (orderTypeOrDefault ota) price opts
                                   response)), tr3)" by simp
qed (simp_all add: fallbackOrder_def)

theorem createOrder_never_fails_once_submitted_witness:
  "validate (orderTypeOrDefault None) None None = None \<and>
   truthy (field (JObj [(''OrderId'', JStr ''42'')]) ''OrderId'') \<and>
   find (sourceOrderIs (field (JObj [(''OrderId'', JStr ''42'')]) ''OrderId'')) [] = None \<and>
   fst (createOrder (scriptedProvider [accepted42, notFound, dataResponse []]) exampleEnv
          ''A1'' ''buy'' (Num 21) (Num 10000) None None None noOptions [])
     = Inr (ResultOrder (fallbackOrder exampleEnv ''A1'' ''buy'' (Num 21) (Num 10000) ''market'' None
                           noOptions (JObj [(''OrderId'', JStr ''42'')]))) \<and>
   ord_status (fallbackOrder exampleEnv ''A1'' ''buy'' (Num 21) (Num 10000) ''market'' None
                 noOptions (JObj [(''OrderId'', JStr ''42'')])) = JStr ''working''"
proof -
  let ?P = "scriptedProvider [accepted42, notFound, dataResponse []]"
  let ?resp = "JObj [(''OrderId'', JStr ''42'')]"
  let ?payload = "orderRequest ''A1'' ''buy'' (Num 21) (Num 10000) (orderTypeOrDefault None) None None noOptions"
  let ?rq1 = "jsonRequest exampleEnv ''POST'' ''/trade/v2/orders'' ?payload"
  let ?rq2 = "apiRequest (access_token exampleEnv) (orderDetailsEndpoint exampleEnv ?resp)
                (apiEndpoint (clientConfig exampleEnv)) [] ''GET''"
  let ?rq3 = "readRequest exampleEnv (portEndpoint ''positions'' (client_key exampleEnv) (Some ''A1''))"
  have h1: "validate (orderTypeOrDefault None) None None = None"
    by (simp add: validate_def)
  have h2: "submitOrder ?P exampleEnv ?payload [] = (Inr ?resp, [?rq1])"
    by (simp add: accepted42_def submitOrder_scripted_first handleError_def)
  have h3: "truthy (field ?resp ''OrderId'')" by simp
  have h4: "request ?P (access_token exampleEnv) (orderDetailsEndpoint exampleEnv ?resp)
              (apiEndpoint (clientConfig exampleEnv)) [] ''GET'' [?rq1]
            = (Inl (Error [Lit ''API request failed: '', Lit ''Not Found'']), [?rq1, ?rq2])"
    by (simp add: request_unfold scriptedProvider_def notFound_def plainResponse_def ok_def)
  have h5: "getPositions ?P exampleEnv (Some ''A1'') [?rq1, ?rq2] = (Inr [], [?rq1, ?rq2, ?rq3])"
    by (simp add: getPositions_def requestChecked_def request_unfold scriptedProvider_def
        dataResponse_def plainResponse_def ok_def json_def io_catch_def io_bind_def io_lift_def
        handleError_def mapData_def readRequest_def exampleEnv_def)
  from createOrder_never_fails_once_submitted [OF h1 h2 h3] h4 h5
  have "createOrder ?P exampleEnv ''A1'' ''buy'' (Num 21) (Num 10000) None None None noOptions [] =
          (Inr (ResultOrder (fallbackOrder exampleEnv ''A1'' ''buy'' (Num 21) (Num 10000)
                  (orderTypeOrDefault None) None noOptions ?resp)), [?rq1, ?rq2, ?rq3])"
    by simp
  with h1 h3 show ?thesis by (simp add: fallbackOrder_def)
qed

text \<open>
  C4. When the fetch of the order by its id succeeds with a truthy payload, \<^verbatim>\<open>createOrder\<close>
  returns that payload as the provider sent it. It is not mapped to the \<^verbatim>\<open>Order\<close> entity
  the way \<^verbatim>\<open>getOrders\<close> maps the provider's orders: a provider order has \<^verbatim>\<open>OrderId\<close>,
  \<^verbatim>\<open>OpenOrderType\<close> and \<^verbatim>\<open>Status\<close>, and no \<^verbatim>\<open>id\<close>, \<^verbatim>\<open>order_type\<close> or \<^verbatim>\<open>status\<close>.
\<close>

theorem createOrder_returns_raw_order_details:
  assumes "validate (orderTypeOrDefault ota) price stop = None"
    and "submitOrder P env (orderRequest ak ty uic q (orderTypeOrDefault ota) price stop opts) tr
           = (Inr response, tr1)"
    and "truthy (field response ''OrderId'')"
    and "request P (access_token env) (orderDetailsEndpoint env response)
           (apiEndpoint (clientConfig env)) [] ''GET'' tr1 = (Inr orderDetails, tr2)"
    and "truthy orderDetails"
  shows "createOrder P env ak ty uic q ota price stop opts tr = (Inr (OrderDetails orderDetails), tr2)"
proof -
  from lookupOrder_found [OF assms(4)] assms(5)
  have "lookupOrder P env ak response tr1 = (Inr (Some (OrderDetails orderDetails)), tr2)" by simp
  from createOrder_submitted [OF assms(1,2,3) this] show ?thesis by simp
qed

theorem createOrder_returns_raw_order_details_witness:
  "validate (orderTypeOrDefault (Some ''limit'')) (Some (Num 2)) None = None \<and>
   truthy (field (JObj [(''OrderId'', JStr ''42'')]) ''OrderId'') \<and>
   truthy order42 \<and>
   fst (createOrder (scriptedProvider [accepted42, Resolved (plainResponse 200 ''OK'' (Some order42))])
          exampleEnv ''A1'' ''sell'' (Num 21) (Num 10000) (Some ''limit'') (Some (Num 2)) None
          noOptions [])
     = Inr (OrderDetails order42) \<and>
   field order42 ''id'' = JUndefined \<and>
   field order42 ''order_type'' = JUndefined \<and>
   field order42 ''status'' = JUndefined \<and>
   field order42 ''OrderId'' = JStr ''42''"
proof -
  let ?P = "scriptedProvider [accepted42, Resolved (plainResponse 200 ''OK'' (Some order42))]"
  let ?resp = "JObj [(''OrderId'', JStr ''42'')]"
  let ?payload = "orderRequest ''A1'' ''sell'' (Num 21) (Num 10000) (orderTypeOrDefault (Some ''limit''))
                    (Some (Num 2)) None noOptions"
  let ?rq1 = "jsonRequest exampleEnv ''POST'' ''/trade/v2/orders'' ?payload"
  let ?rq2 = "apiRequest (access_token exampleEnv) (orderDetailsEndpoint exampleEnv ?resp)
                (apiEndpoint (clientConfig exampleEnv)) [] ''GET''"
  have h1: "validate (orderTypeOrDefault (Some ''limit'')) (Some (Num 2)) None = None"
    by (simp add: validate_def)
  have h2: "submitOrder ?P exampleEnv ?payload [] = (Inr ?resp, [?rq1])"
    by (simp add: accepted42_def submitOrder_scripted_first handleError_def)
  have h3: "truthy (field ?resp ''OrderId'')" by simp
  have h4: "request ?P (access_token exampleEnv) (orderDetailsEndpoint exampleEnv ?resp)
              (apiEndpoint (clientConfig exampleEnv)) [] ''GET'' [?rq1]
            = (Inr order42, [?rq1, ?rq2])"
    by (simp add: request_unfold scriptedProvider_def plainResponse_def ok_def json_def)
  have h5: "truthy order42" by (simp add: order42_def)
  from createOrder_returns_raw_order_details [OF h1 h2 h3 h4 h5] h1 h3 h5
  show ?thesis by (simp add: order42_def)
qed

section \<open>Strict reads\<close>

text \<open>
  C7. \<^verbatim>\<open>getBalance\<close> does not propagate a failure of its request: the rejection handler
  \<^verbatim>\<open>.catch(handleError)\<close> returns the caught error, which is not an error payload, and the
  mapping that follows reads its fields from that error, so the call resolves to a balance
  of zeros with no currency.
\<close>

theorem getBalance_swallows_request_failure:
  assumes "request P (access_token env)
             [Lit ''/port/v1/balances?ClientKey='', Interp (client_key env), Lit ''&AccountKey='',
              Lit account_key]
             (apiEndpoint (clientConfig env)) [] ''GET'' tr = (Inl e, tr')"
  shows "getBalance P env account_key tr =
           (Inr \<lparr>cashBalance = JNum (Num 0), cashAvailable = JNum (Num 0), totalValue = JNum (Num 0),
                 marginUsed = JNum (Num 0), marginAvailable = JNum (Num 0),
                 unrealizedPnL = JNum (Num 0), currency = JUndefined,
                 bal_internal = JError e\<rparr>, tr')"
  using assms
  by (simp add: getBalance_def io_bind_def io_catch_def io_lift_def handleError_def toBalance_def
      or_else_def)

theorem getBalance_swallows_request_failure_witness:
  "getBalance failingProvider exampleEnv ''A1'' [] =
     (Inr \<lparr>cashBalance = JNum (Num 0), cashAvailable = JNum (Num 0), totalValue = JNum (Num 0),
           marginUsed = JNum (Num 0), marginAvailable = JNum (Num 0),
           unrealizedPnL = JNum (Num 0), currency = JUndefined,
           bal_internal = JError (Error [Lit ''API request failed: '', Lit ''Internal Server Error''])\<rparr>,
      [apiRequest (access_token exampleEnv)
         [Lit ''/port/v1/balances?ClientKey='', Interp (client_key exampleEnv), Lit ''&AccountKey='',
          Lit ''A1'']
         (apiEndpoint (clientConfig exampleEnv)) [] ''GET''])"
proof -
  have "request failingProvider (access_token exampleEnv)
             [Lit ''/port/v1/balances?ClientKey='', Interp (client_key exampleEnv), Lit ''&AccountKey='',
              Lit ''A1'']
             (apiEndpoint (clientConfig exampleEnv)) [] ''GET'' []
        = (Inl (Error [Lit ''API request failed: '', Lit ''Internal Server Error'']),
           [apiRequest (access_token exampleEnv)
              [Lit ''/port/v1/balances?ClientKey='', Interp (client_key exampleEnv), Lit ''&AccountKey='',
               Lit ''A1'']
              (apiEndpoint (clientConfig exampleEnv)) [] ''GET''])"
    by (simp add: request_unfold failingProvider_def plainResponse_def ok_def)
  from getBalance_swallows_request_failure [OF this] show ?thesis .
qed

section \<open>Validation of the order arguments\<close>

text \<open>
  C2 (as amended). \<^verbatim>\<open>createOrder\<close> throws before making any request exactly when the
  arguments violate the validation table, where an argument counts as absent when it is
  falsy (not given, 0 or \<^verbatim>\<open>NaN\<close>); the error is then one of the four validation errors.
  Every other combination passes validation: the first thing \<^verbatim>\<open>createOrder\<close> does is
  to submit the order request.
\<close>

theorem createOrder_validation_table:
  "((\<exists>e. createOrder P env ak ty uic q ota price stop opts tr = (Inl e, tr)) \<longleftrightarrow>
      tableViolated (orderTypeOrDefault ota) price stop) \<and>
   (tableViolated (orderTypeOrDefault ota) price stop \<longrightarrow>
      (\<exists>e. e \<in> set validationErrors \<and>
           createOrder P env ak ty uic q ota price stop opts tr = (Inl e, tr))) \<and>
   (\<not> tableViolated (orderTypeOrDefault ota) price stop \<longrightarrow>
      (\<exists>rest. snd (createOrder P env ak ty uic q ota price stop opts tr) =
         tr @ jsonRequest env ''POST'' ''/trade/v2/orders''
                (orderRequest ak ty uic q (orderTypeOrDefault ota) price stop opts) # rest))"
proof -
  have viol: "\<exists>e. e \<in> set validationErrors \<and>
           createOrder P env ak ty uic q ota price stop opts tr = (Inl e, tr)"
    if "tableViolated (orderTypeOrDefault ota) price stop"
  proof -
    from that validate_None_iff [of "orderTypeOrDefault ota" price stop]
    obtain e where e: "validate (orderTypeOrDefault ota) price stop = Some e" by auto
    from validate_Some_in [OF e] createOrder_invalid [OF e] show ?thesis by blast
  qed
  have ok: "\<exists>rest. snd (createOrder P env ak ty uic q ota price stop opts tr) =
         tr @ jsonRequest env ''POST'' ''/trade/v2/orders''
                (orderRequest ak ty uic q (orderTypeOrDefault ota) price stop opts) # rest"
    if "\<not> tableViolated (orderTypeOrDefault ota) price stop"
    using that validate_None_iff [of "orderTypeOrDefault ota" price stop]
      createOrder_valid_submits by blast
  have "tableViolated (orderTypeOrDefault ota) price stop"
    if "createOrder P env ak ty uic q ota price stop opts tr = (Inl e, tr)" for e
  proof (rule ccontr)
    assume "\<not> tableViolated (orderTypeOrDefault ota) price stop"
    from ok [OF this] that show False by auto
  qed
  with viol ok show ?thesis by blast
qed

theorem createOrder_validation_table_witness:
  "tableViolated (orderTypeOrDefault (Some ''stop'')) (Some (Num 2)) None \<and>
   createOrder failingProvider exampleEnv ''A1'' ''buy'' (Num 21) (Num 10000) (Some ''stop'')
     (Some (Num 2)) None noOptions []
     = (Inl (Error [Lit ''Stop orders require a stop limit price'']), []) \<and>
   \<not> tableViolated (orderTypeOrDefault (Some ''limit'')) (Some (Num 2)) None \<and>
   (\<exists>rest. snd (createOrder failingProvider exampleEnv ''A1'' ''buy'' (Num 21) (Num 10000)
                  (Some ''limit'') (Some (Num 2)) None noOptions []) =
      jsonRequest exampleEnv ''POST'' ''/trade/v2/orders''
        (orderRequest ''A1'' ''buy'' (Num 21) (Num 10000) ''limit'' (Some (Num 2)) None noOptions) # rest)"
proof -
  have v1: "tableViolated (orderTypeOrDefault (Some ''stop'')) (Some (Num 2)) None"
    by (simp add: tableViolated_def)
  have v2: "\<not> tableViolated (orderTypeOrDefault (Some ''limit'')) (Some (Num 2)) None"
    by (simp add: tableViolated_def)
  from createOrder_validation_table
         [of failingProvider exampleEnv "''A1''" "''buy''" "Num 21" "Num 10000" "Some ''stop''"
             "Some (Num 2)" None noOptions "[]"] v1
  obtain e where e: "createOrder failingProvider exampleEnv ''A1'' ''buy'' (Num 21) (Num 10000)
      (Some ''stop'') (Some (Num 2)) None noOptions [] = (Inl e, [])" by blast
  then have "e = Error [Lit ''Stop orders require a stop limit price'']"
    by (simp add: createOrder_def Let_def validate_def io_throw_def)
  with e v1 v2
    createOrder_validation_table
         [of failingProvider exampleEnv "''A1''" "''buy''" "Num 21" "Num 10000" "Some ''limit''"
             "Some (Num 2)" None noOptions "[]"]
  show ?thesis by simp
qed

text \<open>
  C2 as stated fails: a limit order with price 0 has its price present, so the table as
  written is satisfied, yet \<^verbatim>\<open>createOrder\<close> throws the validation error.
\<close>

theorem createOrder_zero_price_counterexample:
  "\<not> specTableViolated ''limit'' (Some (Num 0)) None \<and>
   createOrder failingProvider exampleEnv ''A1'' ''buy'' (Num 21) (Num 10000) (Some ''limit'')
     (Some (Num 0)) None noOptions []
     = (Inl (Error [Lit ''Limit orders require a price'']), [])"
  by (simp add: specTableViolated_def createOrder_def Let_def validate_def io_throw_def)

text \<open>
  C10. The validation of \<^verbatim>\<open>createOrder\<close> treats a numeric argument equal to 0 as absent: a
  limit or stop-limit order with price 0 throws \<^verbatim>\<open>"Limit orders require a price"\<close>, a stop
  order with stop limit 0 throws \<^verbatim>\<open>"Stop orders require a stop limit price"\<close>, and a market
  order whose price and stop limit are each not given or 0 passes validation and is
  submitted, with neither \<^verbatim>\<open>OrderPrice\<close> nor \<^verbatim>\<open>StopLimitPrice\<close> in the submitted payload.
\<close>

theorem createOrder_zero_is_absent:
  "createOrder P env ak ty uic q (Some ''limit'') (Some (Num 0)) stop opts tr =
     (Inl (Error [Lit ''Limit orders require a price'']), tr) \<and>
   createOrder P env ak ty uic q (Some ''stop_limit'') (Some (Num 0)) stop opts tr =
     (Inl (Error [Lit ''Limit orders require a price'']), tr) \<and>
   createOrder P env ak ty uic q (Some ''stop'') price (Some (Num 0)) opts tr =
     (Inl (Error [Lit ''Stop orders require a stop limit price'']), tr) \<and>
   (price \<in> {None, Some (Num 0)} \<and> stop \<in> {None, Some (Num 0)} \<longrightarrow>
      validate ''market'' price stop = None \<and>
      (\<exists>rest. snd (createOrder P env ak ty uic q (Some ''market'') price stop opts tr) =
         tr @ jsonRequest env ''POST'' ''/trade/v2/orders''
                (orderRequest ak ty uic q ''market'' price stop opts) # rest) \<and>
      \<not> has_key (orderRequest ak ty uic q ''market'' price stop opts) ''OrderPrice'' \<and>
      \<not> has_key (orderRequest ak ty uic q ''market'' price stop opts) ''StopLimitPrice'')"
proof (intro conjI impI)
  show "createOrder P env ak ty uic q (Some ''limit'') (Some (Num 0)) stop opts tr =
     (Inl (Error [Lit ''Limit orders require a price'']), tr)"
    by (rule createOrder_invalid) (simp add: validate_def)
  show "createOrder P env ak ty uic q (Some ''stop_limit'') (Some (Num 0)) stop opts tr =
     (Inl (Error [Lit ''Limit orders require a price'']), tr)"
    by (rule createOrder_invalid) (simp add: validate_def)
  show "createOrder P env ak ty uic q (Some ''stop'') price (Some (Num 0)) opts tr =
     (Inl (Error [Lit ''Stop orders require a stop limit price'']), tr)"
    by (rule createOrder_invalid) (simp add: validate_def)
next
  assume a: "price \<in> {None, Some (Num 0)} \<and> stop \<in> {None, Some (Num 0)}"
  then have f: "\<not> truthy_arg price" "\<not> truthy_arg stop" by auto
  then show v: "validate ''market'' price stop = None" by (simp add: validate_def)
  then have "validate (orderTypeOrDefault (Some ''market'')) price stop = None" by simp
  from createOrder_valid_submits [OF this]
  show "\<exists>rest. snd (createOrder P env ak ty uic q (Some ''market'') price stop opts tr) =
         tr @ jsonRequest env ''POST'' ''/trade/v2/orders''
                (orderRequest ak ty uic q ''market'' price stop opts) # rest" by simp
  from f show "\<not> has_key (orderRequest ak ty uic q ''market'' price stop opts) ''OrderPrice''"
    by (simp add: orderRequest_omits_falsy_price)
  from f show "\<not> has_key (orderRequest ak ty uic q ''market'' price stop opts) ''StopLimitPrice''"
    by (simp add: orderRequest_omits_falsy_stop)
qed

theorem createOrder_zero_is_absent_witness:
  "Some (Num 0) \<in> {None, Some (Num 0)} \<and>
   validate ''market'' (Some (Num 0)) (Some (Num 0)) = None \<and>
   (\<exists>rest. snd (createOrder failingProvider exampleEnv ''A1'' ''buy'' (Num 21) (Num 10000)
                  (Some ''market'') (Some (Num 0)) (Some (Num 0)) noOptions []) =
      jsonRequest exampleEnv ''POST'' ''/trade/v2/orders''
        (orderRequest ''A1'' ''buy'' (Num 21) (Num 10000) ''market'' (Some (Num 0)) (Some (Num 0))
           noOptions) # rest) \<and>
   \<not> has_key (orderRequest ''A1'' ''buy'' (Num 21) (Num 10000) ''market'' (Some (Num 0)) (Some (Num 0))
            noOptions) ''OrderPrice'' \<and>
   \<not> has_key (orderRequest ''A1'' ''buy'' (Num 21) (Num 10000) ''market'' (Some (Num 0)) (Some (Num 0))
            noOptions) ''StopLimitPrice'' \<and>
   createOrder failingProvider exampleEnv ''A1'' ''buy'' (Num 21) (Num 10000) (Some ''limit'')
     (Some (Num 0)) None noOptions [] = (Inl (Error [Lit ''Limit orders require a price'']), []) \<and>
   createOrder failingProvider exampleEnv ''A1'' ''buy'' (Num 21) (Num 10000) (Some ''stop'')
     None (Some (Num 0)) noOptions [] = (Inl (Error [Lit ''Stop orders require a stop limit price'']), [])"
  using createOrder_zero_is_absent
          [where P = failingProvider and env = exampleEnv and ak = "''A1''" and ty = "''buy''"
             and uic = "Num 21" and q = "Num 10000" and opts = noOptions and tr = "[]"
             and price = "Some (Num 0)" and stop = "Some (Num 0)"]
        createOrder_zero_is_absent
          [where P = failingProvider and env = exampleEnv and ak = "''A1''" and ty = "''buy''"
             and uic = "Num 21" and q = "Num 10000" and opts = noOptions and tr = "[]"
             and price = None and stop = None]
  by simp

section \<open>Modifying an order\<close>




section \<open>Authentication\<close>





end
